theory Spec2Isabelle
  imports Complex_Main
begin

section \<open>Errors\<close>

text \<open>
  The Python exceptions the notebook and the tensor library can raise. A function that
  can raise returns \<open>error + 'a\<close>, with \<open>Inl\<close> for the exception.
\<close>

datatype error =
    ZeroDivisionError
  | AssertionError string
  | RuntimeError
  | ValueError
  | IndexError

definition bindE :: "error + 'a \<Rightarrow> ('a \<Rightarrow> error + 'b) \<Rightarrow> error + 'b" where
  "bindE m f = (case m of Inl e \<Rightarrow> Inl e | Inr x \<Rightarrow> f x)"

section \<open>Tensors\<close>

text \<open>
  A tensor is its shape and its elements in row-major order, as a contiguous
  \<^verbatim>\<open>torch.Tensor\<close> is. Floating-point elements are modelled as \<open>real\<close>: the
  arithmetic is the exact one, rounding and overflow are not modelled. Token ids are
  \<open>int\<close>, a boolean mask has \<open>bool\<close> elements.
\<close>

datatype 'a tensor = Tensor (shape: "nat list") (data: "'a list")

text \<open>All index tuples of a shape, in row-major order, and the offset of one.\<close>

fun indices :: "nat list \<Rightarrow> nat list list" where
  "indices [] = [[]]"
| "indices (n # sh) = concat (map (\<lambda>i. map ((#) i) (indices sh)) [0..<n])"

fun ravel :: "nat list \<Rightarrow> nat list \<Rightarrow> nat" where
  "ravel (n # sh) (i # idx) = i * prod_list sh + ravel sh idx"
| "ravel _ _ = 0"

definition valid_index :: "nat list \<Rightarrow> nat list \<Rightarrow> bool" where
  "valid_index sh idx = list_all2 (<) idx sh"

definition tabulate :: "nat list \<Rightarrow> (nat list \<Rightarrow> 'a) \<Rightarrow> 'a tensor" where
  "tabulate sh f = Tensor sh (map f (indices sh))"

definition entry :: "'a tensor \<Rightarrow> nat list \<Rightarrow> 'a" where
  "entry t idx = data t ! ravel (shape t) idx"

text \<open>\<^verbatim>\<open>N, seq_length = x.shape\<close>: unpacking raises ValueError unless the rank is 2.\<close>

definition shape2 :: "'a tensor \<Rightarrow> error + (nat \<times> nat)" where
  "shape2 t = (case shape t of [a, b] \<Rightarrow> Inr (a, b) | _ \<Rightarrow> Inl ValueError)"

text \<open>\<^verbatim>\<open>t.shape[i]\<close>: IndexError past the rank.\<close>

definition shape_at :: "'a tensor \<Rightarrow> nat \<Rightarrow> error + nat" where
  "shape_at t i = (if i < length (shape t) then Inr (shape t ! i) else Inl IndexError)"

subsection \<open>Broadcasting\<close>

text \<open>
  Two shapes are aligned at their last axis; two sizes are compatible when they are
  equal or one of them is 1. \<open>bidx sh idx\<close> is the index into an operand of shape
  \<open>sh\<close> that an index \<open>idx\<close> of the broadcast result reads.
\<close>

fun broadcast_rev :: "nat list \<Rightarrow> nat list \<Rightarrow> error + nat list" where
  "broadcast_rev [] ys = Inr ys"
| "broadcast_rev (x # xs) [] = Inr (x # xs)"
| "broadcast_rev (x # xs) (y # ys) =
     (if x = y \<or> y = 1 then bindE (broadcast_rev xs ys) (\<lambda>r. Inr (x # r))
      else if x = 1 then bindE (broadcast_rev xs ys) (\<lambda>r. Inr (y # r))
      else Inl RuntimeError)"

definition broadcast_shapes :: "nat list \<Rightarrow> nat list \<Rightarrow> error + nat list" where
  "broadcast_shapes a b = bindE (broadcast_rev (rev a) (rev b)) (\<lambda>r. Inr (rev r))"

definition bidx :: "nat list \<Rightarrow> nat list \<Rightarrow> nat list" where
  "bidx sh idx =
     map2 (\<lambda>d i. if d = 1 then 0 else i) sh (drop (length idx - length sh) idx)"

definition binop :: "('a \<Rightarrow> 'b \<Rightarrow> 'c) \<Rightarrow> 'a tensor \<Rightarrow> 'b tensor \<Rightarrow> error + 'c tensor" where
  "binop f a b =
     bindE (broadcast_shapes (shape a) (shape b)) (\<lambda>sh.
       Inr (tabulate sh (\<lambda>idx.
         f (entry a (bidx (shape a) idx)) (entry b (bidx (shape b) idx)))))"

text \<open>\<^verbatim>\<open>a + b\<close> on tensors.\<close>

definition add :: "real tensor \<Rightarrow> real tensor \<Rightarrow> error + real tensor" where
  "add a b = binop (+) a b"

text \<open>\<^verbatim>\<open>t.masked_fill(m, v)\<close>: \<open>v\<close> where the broadcast \<open>m\<close> is true.\<close>

definition masked_fill :: "real tensor \<Rightarrow> bool tensor \<Rightarrow> real \<Rightarrow> error + real tensor" where
  "masked_fill t m v = binop (\<lambda>x c. if c then v else x) t m"

text \<open>\<^verbatim>\<open>t / c\<close> for a Python number \<open>c\<close>.\<close>

definition div_scalar :: "real tensor \<Rightarrow> real \<Rightarrow> real tensor" where
  "div_scalar t c = tabulate (shape t) (\<lambda>idx. entry t idx / c)"

text \<open>\<^verbatim>\<open>t.expand(*sh)\<close>\<close>

definition expand :: "'a tensor \<Rightarrow> nat list \<Rightarrow> error + 'a tensor" where
  "expand t sh =
     (if length (shape t) \<le> length sh \<and>
         list_all2 (\<lambda>d s. d = s \<or> d = 1) (shape t) (drop (length sh - length (shape t)) sh)
      then Inr (tabulate sh (\<lambda>idx. entry t (bidx (shape t) idx)))
      else Inl RuntimeError)"

text \<open>\<^verbatim>\<open>t.unsqueeze(d)\<close> for \<open>d \<ge> 0\<close>: a new axis of size 1 at position \<open>d\<close>.\<close>

definition unsqueeze :: "'a tensor \<Rightarrow> nat \<Rightarrow> error + 'a tensor" where
  "unsqueeze t d =
     (if d \<le> length (shape t)
      then Inr (Tensor (take d (shape t) @ [1] @ drop d (shape t)) (data t))
      else Inl IndexError)"

text \<open>
  \<^verbatim>\<open>t.reshape(*dims)\<close> on Python integers: the elements keep their row-major order.
  One dimension may be \<open>-1\<close> and is then inferred; any other negative dimension, a
  second \<open>-1\<close>, or a number of elements that does not fit raises RuntimeError.
\<close>

definition reshape :: "'a tensor \<Rightarrow> int list \<Rightarrow> error + 'a tensor" where
  "reshape t dims =
     (let n = prod_list (shape t) in
      if list_ex (\<lambda>d. d < - 1) dims \<or> 1 < length (filter (\<lambda>d. d = - 1) dims)
      then Inl RuntimeError
      else if list_ex (\<lambda>d. d = - 1) dims then
        (let p = prod_list (map nat (filter (\<lambda>d. 0 \<le> d) dims)) in
         if 0 < p \<and> n mod p = 0
         then Inr (Tensor (map (\<lambda>d. if d = - 1 then n div p else nat d) dims) (data t))
         else Inl RuntimeError)
      else if prod_list (map nat dims) = n then Inr (Tensor (map nat dims) (data t))
      else Inl RuntimeError)"

subsection \<open>Contractions, softmax\<close>

text \<open>
  \<^verbatim>\<open>torch.einsum\<close> lets a label have size 1 in one operand and broadcasts it:
  \<open>bdim\<close> is the size of a label that both operands carry, \<open>bi\<close> the index read in
  an operand whose size for the label is \<open>d\<close>.
\<close>

definition bdim :: "nat \<Rightarrow> nat \<Rightarrow> error + nat" where
  "bdim a b = (if a = b \<or> b = 1 then Inr a else if a = 1 then Inr b else Inl RuntimeError)"

definition bi :: "nat \<Rightarrow> nat \<Rightarrow> nat" where
  "bi d i = (if d = 1 then 0 else i)"

text \<open>\<^verbatim>\<open>torch.einsum("nqhd,nkhd->nhqk", [a, b])\<close>\<close>

definition einsum_nqhd_nkhd_nhqk :: "real tensor \<Rightarrow> real tensor \<Rightarrow> error + real tensor" where
  "einsum_nqhd_nkhd_nhqk a b =
     (case (shape a, shape b) of
        ([n1, q, h1, d1], [n2, k, h2, d2]) \<Rightarrow>
          bindE (bdim n1 n2) (\<lambda>n. bindE (bdim h1 h2) (\<lambda>h. bindE (bdim d1 d2) (\<lambda>d.
            Inr (tabulate [n, h, q, k] (\<lambda>idx.
              sum_list (map (\<lambda>di.
                  entry a [bi n1 (idx ! 0), idx ! 2, bi h1 (idx ! 1), bi d1 di]
                  * entry b [bi n2 (idx ! 0), idx ! 3, bi h2 (idx ! 1), bi d2 di])
                [0..<d]))))))
      | _ \<Rightarrow> Inl RuntimeError)"

text \<open>\<^verbatim>\<open>torch.einsum("nhql,nlhd->nqhd", [a, b])\<close>\<close>

definition einsum_nhql_nlhd_nqhd :: "real tensor \<Rightarrow> real tensor \<Rightarrow> error + real tensor" where
  "einsum_nhql_nlhd_nqhd a b =
     (case (shape a, shape b) of
        ([n1, h1, q, l1], [n2, l2, h2, d]) \<Rightarrow>
          bindE (bdim n1 n2) (\<lambda>n. bindE (bdim h1 h2) (\<lambda>h. bindE (bdim l1 l2) (\<lambda>l.
            Inr (tabulate [n, q, h, d] (\<lambda>idx.
              sum_list (map (\<lambda>li.
                  entry a [bi n1 (idx ! 0), bi h1 (idx ! 2), idx ! 1, bi l1 li]
                  * entry b [bi n2 (idx ! 0), bi l2 li, bi h2 (idx ! 2), idx ! 3])
                [0..<l]))))))
      | _ \<Rightarrow> Inl RuntimeError)"

text \<open>\<^verbatim>\<open>torch.softmax(t, dim=d)\<close>: IndexError when the tensor has no axis \<open>d\<close>.\<close>

definition softmax :: "real tensor \<Rightarrow> nat \<Rightarrow> error + real tensor" where
  "softmax t d =
     (if d < length (shape t)
      then Inr (tabulate (shape t) (\<lambda>idx.
             exp (entry t idx)
             / sum_list (map (\<lambda>k. exp (entry t (idx[d := k]))) [0..<shape t ! d])))
      else Inl IndexError)"

text \<open>\<^verbatim>\<open>torch.ones(sh)\<close>, \<^verbatim>\<open>torch.tril(t)\<close>, \<^verbatim>\<open>torch.arange(0, n)\<close>\<close>

definition ones :: "nat list \<Rightarrow> real tensor" where
  "ones sh = tabulate sh (\<lambda>idx. 1)"

definition tril :: "real tensor \<Rightarrow> error + real tensor" where
  "tril t =
     (let r = length (shape t) in
      if 2 \<le> r
      then Inr (tabulate (shape t) (\<lambda>idx. if idx ! (r - 1) \<le> idx ! (r - 2) then entry t idx else 0))
      else Inl RuntimeError)"

definition arange :: "nat \<Rightarrow> int tensor" where
  "arange n = Tensor [n] (map int [0..<n])"

section \<open>Library layers\<close>

text \<open>
  Constructing a layer allocates and initialises its parameter tensors. The state
  threaded through the constructors is the number of parameter elements allocated so
  far; \<open>gen\<close> gives the initial value of each randomly initialised element. A negative
  size makes the allocation raise RuntimeError.
\<close>

definition bindC ::
    "(error + 'a) \<times> nat \<Rightarrow> ('a \<Rightarrow> nat \<Rightarrow> (error + 'b) \<times> nat) \<Rightarrow> (error + 'b) \<times> nat" where
  "bindC m f = (case m of (Inl e, g) \<Rightarrow> (Inl e, g) | (Inr x, g) \<Rightarrow> f x g)"

record Linear =
  lin_weight :: "real tensor"
  lin_bias :: "real tensor"

definition nn_Linear :: "(nat \<Rightarrow> real) \<Rightarrow> int \<Rightarrow> int \<Rightarrow> nat \<Rightarrow> (error + Linear) \<times> nat" where
  "nn_Linear gen in_features out_features g =
     (if in_features < 0 \<or> out_features < 0 then (Inl RuntimeError, g)
      else
        (let i = nat in_features; out = nat out_features;
             w = Tensor [out, i] (map gen [g..<g + out * i]);
             b = Tensor [out] (map gen [g + out * i..<g + out * i + out])
         in (Inr \<lparr>lin_weight = w, lin_bias = b\<rparr>, g + out * i + out)))"

definition Linear_forward :: "Linear \<Rightarrow> real tensor \<Rightarrow> error + real tensor" where
  "Linear_forward l x =
     (case shape (lin_weight l) of
        [out, inp] \<Rightarrow>
          if shape x \<noteq> [] \<and> last (shape x) = inp
          then Inr (tabulate (butlast (shape x) @ [out]) (\<lambda>idx.
                 sum_list (map (\<lambda>k.
                     entry x (butlast idx @ [k]) * entry (lin_weight l) [last idx, k])
                   [0..<inp])
                 + entry (lin_bias l) [last idx]))
          else Inl RuntimeError
      | _ \<Rightarrow> Inl RuntimeError)"

record LayerNorm =
  ln_weight :: "real tensor"
  ln_bias :: "real tensor"
  ln_eps :: real

definition nn_LayerNorm :: "int \<Rightarrow> nat \<Rightarrow> (error + LayerNorm) \<times> nat" where
  "nn_LayerNorm normalized_shape g =
     (if normalized_shape < 0 then (Inl RuntimeError, g)
      else
        (let e = nat normalized_shape
         in (Inr \<lparr>ln_weight = Tensor [e] (replicate e 1),
                  ln_bias = Tensor [e] (replicate e 0),
                  ln_eps = 1 / 10 ^ 5\<rparr>, g + 2 * e)))"

definition LayerNorm_forward :: "LayerNorm \<Rightarrow> real tensor \<Rightarrow> error + real tensor" where
  "LayerNorm_forward ly x =
     (case shape (ln_weight ly) of
        [e] \<Rightarrow>
          if shape x \<noteq> [] \<and> last (shape x) = e
          then Inr (tabulate (shape x) (\<lambda>idx.
                 let row = map (\<lambda>k. entry x (butlast idx @ [k])) [0..<e];
                     mean = sum_list row / real e;
                     var = sum_list (map (\<lambda>v. (v - mean) ^ 2) row) / real e
                 in (entry x idx - mean) / sqrt (var + ln_eps ly) * entry (ln_weight ly) [last idx]
                    + entry (ln_bias ly) [last idx]))
          else Inl RuntimeError
      | _ \<Rightarrow> Inl RuntimeError)"

record Embedding =
  emb_weight :: "real tensor"

definition nn_Embedding :: "(nat \<Rightarrow> real) \<Rightarrow> int \<Rightarrow> int \<Rightarrow> nat \<Rightarrow> (error + Embedding) \<times> nat" where
  "nn_Embedding gen num_embeddings embedding_dim g =
     (if num_embeddings < 0 \<or> embedding_dim < 0 then (Inl RuntimeError, g)
      else
        (let n = nat num_embeddings; d = nat embedding_dim
         in (Inr \<lparr>emb_weight = Tensor [n, d] (map gen [g..<g + n * d])\<rparr>, g + n * d)))"

definition Embedding_forward :: "Embedding \<Rightarrow> int tensor \<Rightarrow> error + real tensor" where
  "Embedding_forward e x =
     (case shape (emb_weight e) of
        [num, width] \<Rightarrow>
          if list_all (\<lambda>t. 0 \<le> t \<and> t < int num) (data x)
          then Inr (tabulate (shape x @ [width]) (\<lambda>idx.
                 entry (emb_weight e) [nat (entry x (butlast idx)), last idx]))
          else Inl IndexError
      | _ \<Rightarrow> Inl RuntimeError)"

text \<open>\<^verbatim>\<open>nn.ReLU()\<close>\<close>

definition ReLU :: "real tensor \<Rightarrow> real tensor" where
  "ReLU x = tabulate (shape x) (\<lambda>idx. max 0 (entry x idx))"

text \<open>
  Dropout draws from the global random generator: \<open>rnd\<close> is the stream of keep
  decisions and the threaded number is the position in the stream. A module is in
  training mode once constructed. With \<open>p = 0\<close>, or outside training, the input is
  returned and nothing is drawn.
\<close>

record Dropout =
  drop_p :: real
  drop_training :: bool

definition nn_Dropout :: "real \<Rightarrow> error + Dropout" where
  "nn_Dropout p =
     (if p < 0 \<or> 1 < p then Inl ValueError
      else Inr \<lparr>drop_p = p, drop_training = True\<rparr>)"

definition Dropout_forward ::
    "Dropout \<Rightarrow> (nat \<Rightarrow> bool) \<Rightarrow> real tensor \<Rightarrow> nat \<Rightarrow> error + (real tensor \<times> nat)" where
  "Dropout_forward d rnd x g =
     (if drop_p d < 0 \<or> 1 < drop_p d then Inl ValueError
      else if drop_training d \<and> 0 < drop_p d then
        (let n = prod_list (shape x)
         in Inr (Tensor (shape x)
                   (map (\<lambda>i. if drop_p d < 1 \<and> rnd (g + i)
                              then data x ! i / (1 - drop_p d) else 0) [0..<n]),
                 g + n))
      else Inr (x, g))"

section \<open>The notebook's modules\<close>

text \<open>
  Each class of the notebook is a record of its sub-modules and attributes, its
  \<^verbatim>\<open>__init__\<close> a constructor over the allocation state, its \<^verbatim>\<open>forward\<close> a
  function into \<open>error + _\<close>. Field names carry the class as a prefix. The
  \<^verbatim>\<open>device\<close> attribute and the \<^verbatim>\<open>.to(device)\<close> calls only place tensors and
  are left out.
\<close>

subsection \<open>SelfAttention\<close>

record SelfAttention =
  sa_embed_size :: int
  sa_heads :: int
  sa_head_dim :: int
  sa_values :: Linear
  sa_keys :: Linear
  sa_queries :: Linear
  sa_fc_out :: Linear

definition SelfAttention_init ::
    "(nat \<Rightarrow> real) \<Rightarrow> int \<Rightarrow> int \<Rightarrow> nat \<Rightarrow> (error + SelfAttention) \<times> nat" where
  "SelfAttention_init gen embed_size heads g =
     (if heads = 0 then (Inl ZeroDivisionError, g)
      else
        (let head_dim = embed_size div heads in
         if head_dim * heads = embed_size then
           bindC (nn_Linear gen embed_size embed_size g) (\<lambda>values g.
           bindC (nn_Linear gen embed_size embed_size g) (\<lambda>keys g.
           bindC (nn_Linear gen embed_size embed_size g) (\<lambda>queries g.
           bindC (nn_Linear gen embed_size embed_size g) (\<lambda>fc_out g.
             (Inr \<lparr>sa_embed_size = embed_size, sa_heads = heads, sa_head_dim = head_dim,
                    sa_values = values, sa_keys = keys, sa_queries = queries,
                    sa_fc_out = fc_out\<rparr>, g)))))
         else (Inl (AssertionError ''Embedding size needs to be divisible by heads''), g)))"

text \<open>
  A mask is the boolean tensor of \<^verbatim>\<open>make_src_mask\<close> or the float tensor of
  \<^verbatim>\<open>make_trg_mask\<close>; \<open>mask_eq_zero\<close> is \<^verbatim>\<open>mask == 0\<close>, where \<^verbatim>\<open>False == 0\<close>.
\<close>

datatype mask = BoolMask "bool tensor" | FloatMask "real tensor"

definition mask_shape :: "mask \<Rightarrow> nat list" where
  "mask_shape m = (case m of BoolMask b \<Rightarrow> shape b | FloatMask f \<Rightarrow> shape f)"

definition mask_eq_zero :: "mask \<Rightarrow> bool tensor" where
  "mask_eq_zero m =
     (case m of
        BoolMask b \<Rightarrow> tabulate (shape b) (\<lambda>idx. \<not> entry b idx)
      | FloatMask f \<Rightarrow> tabulate (shape f) (\<lambda>idx. entry f idx = 0))"

text \<open>The value of the broadcast mask at an index of the energy, \<^verbatim>\<open>True\<close> read as 1.\<close>

definition mask_at :: "mask \<Rightarrow> nat list \<Rightarrow> real" where
  "mask_at m idx =
     (case m of
        BoolMask b \<Rightarrow> (if entry b (bidx (shape b) idx) then 1 else 0)
      | FloatMask f \<Rightarrow> entry f (bidx (shape f) idx))"

text \<open>Lines 123 to 135 of \<^verbatim>\<open>forward\<close>: the lengths, the projections, the split into heads.\<close>

definition SelfAttention_heads ::
    "SelfAttention \<Rightarrow> real tensor \<Rightarrow> real tensor \<Rightarrow> real tensor
     \<Rightarrow> error + (nat \<times> nat \<times> real tensor \<times> real tensor \<times> real tensor)" where
  "SelfAttention_heads sa values keys query =
     bindE (shape_at query 0) (\<lambda>N.
     bindE (shape_at values 1) (\<lambda>value_len.
     bindE (shape_at keys 1) (\<lambda>key_len.
     bindE (shape_at query 1) (\<lambda>query_len.
     bindE (Linear_forward (sa_values sa) values) (\<lambda>values.
     bindE (Linear_forward (sa_keys sa) keys) (\<lambda>keys.
     bindE (Linear_forward (sa_queries sa) query) (\<lambda>queries.
     bindE (reshape values [int N, int value_len, sa_heads sa, sa_head_dim sa]) (\<lambda>values.
     bindE (reshape keys [int N, int key_len, sa_heads sa, sa_head_dim sa]) (\<lambda>keys.
     bindE (reshape queries [int N, int query_len, sa_heads sa, sa_head_dim sa]) (\<lambda>queries.
       Inr (N, query_len, values, keys, queries)))))))))))"

text \<open>Lines 138 to 140: the energy, with the sentinel \<^verbatim>\<open>float("-1e20")\<close> where the mask is 0.\<close>

definition SelfAttention_energy ::
    "real tensor \<Rightarrow> real tensor \<Rightarrow> mask option \<Rightarrow> error + real tensor" where
  "SelfAttention_energy queries keys msk =
     bindE (einsum_nqhd_nkhd_nhqk queries keys) (\<lambda>energy.
       case msk of
         None \<Rightarrow> Inr energy
       | Some m \<Rightarrow> masked_fill energy (mask_eq_zero m) (- (10 ^ 20)))"

text \<open>
  Line 143: \<^verbatim>\<open>torch.softmax(energy / (self.embed_size ** (1 / 2)), dim=3)\<close>. In Python 3
  \<^verbatim>\<open>1 / 2\<close> is 0.5, so the divisor is the square root of \<^verbatim>\<open>embed_size\<close>.
\<close>

definition SelfAttention_softmax :: "SelfAttention \<Rightarrow> real tensor \<Rightarrow> error + real tensor" where
  "SelfAttention_softmax sa energy =
     softmax (div_scalar energy (sqrt (real_of_int (sa_embed_size sa)))) 3"

text \<open>The local variable \<^verbatim>\<open>attention\<close> of \<^verbatim>\<open>forward\<close> (lines 123 to 143).\<close>

definition SelfAttention_attention ::
    "SelfAttention \<Rightarrow> real tensor \<Rightarrow> real tensor \<Rightarrow> real tensor \<Rightarrow> mask option
     \<Rightarrow> error + real tensor" where
  "SelfAttention_attention sa values keys query msk =
     bindE (SelfAttention_heads sa values keys query) (\<lambda>(N, query_len, values, keys, queries).
     bindE (SelfAttention_energy queries keys msk) (\<lambda>energy.
       SelfAttention_softmax sa energy))"

definition SelfAttention_forward ::
    "SelfAttention \<Rightarrow> real tensor \<Rightarrow> real tensor \<Rightarrow> real tensor \<Rightarrow> mask option
     \<Rightarrow> error + real tensor" where
  "SelfAttention_forward sa values keys query msk =
     bindE (SelfAttention_heads sa values keys query) (\<lambda>(N, query_len, values, keys, queries).
     bindE (SelfAttention_energy queries keys msk) (\<lambda>energy.
     bindE (SelfAttention_softmax sa energy) (\<lambda>attention.
     bindE (einsum_nhql_nlhd_nqhd attention values) (\<lambda>out.
     bindE (reshape out [int N, int query_len, sa_heads sa * sa_head_dim sa]) (\<lambda>out.
       Linear_forward (sa_fc_out sa) out)))))"

subsection \<open>TransformerBlock\<close>

text \<open>\<^verbatim>\<open>feed_forward\<close> is \<^verbatim>\<open>nn.Sequential(Linear, ReLU, Linear)\<close>: the two linear layers.\<close>

record TransformerBlock =
  tb_attention :: SelfAttention
  tb_norm1 :: LayerNorm
  tb_norm2 :: LayerNorm
  tb_feed_forward :: "Linear \<times> Linear"
  tb_dropout :: Dropout

definition TransformerBlock_init ::
    "(nat \<Rightarrow> real) \<Rightarrow> int \<Rightarrow> int \<Rightarrow> real \<Rightarrow> int \<Rightarrow> nat \<Rightarrow> (error + TransformerBlock) \<times> nat" where
  "TransformerBlock_init gen embed_size heads dropout forward_expansion g =
     bindC (SelfAttention_init gen embed_size heads g) (\<lambda>attention g.
     bindC (nn_LayerNorm embed_size g) (\<lambda>norm1 g.
     bindC (nn_LayerNorm embed_size g) (\<lambda>norm2 g.
     bindC (nn_Linear gen embed_size (forward_expansion * embed_size) g) (\<lambda>ff1 g.
     bindC (nn_Linear gen (forward_expansion * embed_size) embed_size g) (\<lambda>ff2 g.
     bindC (nn_Dropout dropout, g) (\<lambda>drop g.
       (Inr \<lparr>tb_attention = attention, tb_norm1 = norm1, tb_norm2 = norm2,
              tb_feed_forward = (ff1, ff2), tb_dropout = drop\<rparr>, g)))))))"

definition Sequential_forward :: "Linear \<times> Linear \<Rightarrow> real tensor \<Rightarrow> error + real tensor" where
  "Sequential_forward ff x =
     bindE (Linear_forward (fst ff) x) (\<lambda>h. Linear_forward (snd ff) (ReLU h))"

definition TransformerBlock_forward ::
    "TransformerBlock \<Rightarrow> (nat \<Rightarrow> bool) \<Rightarrow> real tensor \<Rightarrow> real tensor \<Rightarrow> real tensor
     \<Rightarrow> mask option \<Rightarrow> nat \<Rightarrow> error + (real tensor \<times> nat)" where
  "TransformerBlock_forward tb rnd value key query msk g =
     bindE (SelfAttention_forward (tb_attention tb) value key query msk) (\<lambda>attention.
     bindE (add attention query) (\<lambda>s1.
     bindE (LayerNorm_forward (tb_norm1 tb) s1) (\<lambda>n1.
     bindE (Dropout_forward (tb_dropout tb) rnd n1 g) (\<lambda>(x, g).
     bindE (Sequential_forward (tb_feed_forward tb) x) (\<lambda>forward.
     bindE (add forward x) (\<lambda>s2.
     bindE (LayerNorm_forward (tb_norm2 tb) s2) (\<lambda>n2.
       Dropout_forward (tb_dropout tb) rnd n2 g)))))))"

subsection \<open>Encoder\<close>

text \<open>\<^verbatim>\<open>[f() for _ in range(n)]\<close>: the constructions run in order and stop at the first error.\<close>

fun make_layers ::
    "(nat \<Rightarrow> (error + 'a) \<times> nat) \<Rightarrow> nat \<Rightarrow> nat \<Rightarrow> (error + 'a list) \<times> nat" where
  "make_layers mk 0 g = (Inr [], g)"
| "make_layers mk (Suc n) g =
     bindC (mk g) (\<lambda>l g. bindC (make_layers mk n g) (\<lambda>ls g. (Inr (l # ls), g)))"

record Encoder =
  enc_embed_size :: int
  enc_word_embedding :: Embedding
  enc_position_embedding :: Embedding
  enc_layers :: "TransformerBlock list"
  enc_dropout :: Dropout

definition Encoder_init ::
    "(nat \<Rightarrow> real) \<Rightarrow> int \<Rightarrow> int \<Rightarrow> int \<Rightarrow> int \<Rightarrow> int \<Rightarrow> real \<Rightarrow> int \<Rightarrow> nat
     \<Rightarrow> (error + Encoder) \<times> nat" where
  "Encoder_init gen src_vocab_size embed_size num_layers heads forward_expansion dropout
       max_length g =
     bindC (nn_Embedding gen src_vocab_size embed_size g) (\<lambda>word_embedding g.
     bindC (nn_Embedding gen max_length embed_size g) (\<lambda>position_embedding g.
     bindC (make_layers (TransformerBlock_init gen embed_size heads dropout forward_expansion)
              (nat num_layers) g) (\<lambda>layers g.
     bindC (nn_Dropout dropout, g) (\<lambda>drop g.
       (Inr \<lparr>enc_embed_size = embed_size, enc_word_embedding = word_embedding,
              enc_position_embedding = position_embedding, enc_layers = layers,
              enc_dropout = drop\<rparr>, g)))))"

fun Encoder_layers ::
    "TransformerBlock list \<Rightarrow> (nat \<Rightarrow> bool) \<Rightarrow> real tensor \<Rightarrow> mask option \<Rightarrow> nat
     \<Rightarrow> error + (real tensor \<times> nat)" where
  "Encoder_layers [] rnd out msk g = Inr (out, g)"
| "Encoder_layers (layer # layers) rnd out msk g =
     bindE (TransformerBlock_forward layer rnd out out out msk g) (\<lambda>(out, g).
       Encoder_layers layers rnd out msk g)"

text \<open>\<^verbatim>\<open>word_embedding(x) + position_embedding(positions)\<close>, shared by both stacks.\<close>

definition embed_tokens :: "Embedding \<Rightarrow> Embedding \<Rightarrow> int tensor \<Rightarrow> error + real tensor" where
  "embed_tokens word_embedding position_embedding x =
     bindE (shape2 x) (\<lambda>(N, seq_length).
     bindE (expand (arange seq_length) [N, seq_length]) (\<lambda>positions.
     bindE (Embedding_forward word_embedding x) (\<lambda>w.
     bindE (Embedding_forward position_embedding positions) (\<lambda>p.
       add w p))))"

definition Encoder_forward ::
    "Encoder \<Rightarrow> (nat \<Rightarrow> bool) \<Rightarrow> int tensor \<Rightarrow> mask option \<Rightarrow> nat
     \<Rightarrow> error + (real tensor \<times> nat)" where
  "Encoder_forward enc rnd x msk g =
     bindE (embed_tokens (enc_word_embedding enc) (enc_position_embedding enc) x) (\<lambda>e.
     bindE (Dropout_forward (enc_dropout enc) rnd e g) (\<lambda>(out, g).
       Encoder_layers (enc_layers enc) rnd out msk g))"

subsection \<open>DecoderBlock and Decoder\<close>

record DecoderBlock =
  db_norm :: LayerNorm
  db_attention :: SelfAttention
  db_transformer_block :: TransformerBlock
  db_dropout :: Dropout

definition DecoderBlock_init ::
    "(nat \<Rightarrow> real) \<Rightarrow> int \<Rightarrow> int \<Rightarrow> int \<Rightarrow> real \<Rightarrow> nat \<Rightarrow> (error + DecoderBlock) \<times> nat" where
  "DecoderBlock_init gen embed_size heads forward_expansion dropout g =
     bindC (nn_LayerNorm embed_size g) (\<lambda>norm0 g.
     bindC (SelfAttention_init gen embed_size heads g) (\<lambda>attention g.
     bindC (TransformerBlock_init gen embed_size heads dropout forward_expansion g)
       (\<lambda>transformer_block g.
     bindC (nn_Dropout dropout, g) (\<lambda>drop g.
       (Inr \<lparr>db_norm = norm0, db_attention = attention,
              db_transformer_block = transformer_block, db_dropout = drop\<rparr>, g)))))"

definition DecoderBlock_forward ::
    "DecoderBlock \<Rightarrow> (nat \<Rightarrow> bool) \<Rightarrow> real tensor \<Rightarrow> real tensor \<Rightarrow> real tensor
     \<Rightarrow> mask option \<Rightarrow> mask option \<Rightarrow> nat \<Rightarrow> error + (real tensor \<times> nat)" where
  "DecoderBlock_forward db rnd x value key src_mask trg_mask g =
     bindE (SelfAttention_forward (db_attention db) x x x trg_mask) (\<lambda>attention.
     bindE (add attention x) (\<lambda>s.
     bindE (LayerNorm_forward (db_norm db) s) (\<lambda>n.
     bindE (Dropout_forward (db_dropout db) rnd n g) (\<lambda>(query, g).
       TransformerBlock_forward (db_transformer_block db) rnd value key query src_mask g))))"

record Decoder =
  dec_word_embedding :: Embedding
  dec_position_embedding :: Embedding
  dec_layers :: "DecoderBlock list"
  dec_fc_out :: Linear
  dec_dropout :: Dropout

definition Decoder_init ::
    "(nat \<Rightarrow> real) \<Rightarrow> int \<Rightarrow> int \<Rightarrow> int \<Rightarrow> int \<Rightarrow> int \<Rightarrow> real \<Rightarrow> int \<Rightarrow> nat
     \<Rightarrow> (error + Decoder) \<times> nat" where
  "Decoder_init gen trg_vocab_size embed_size num_layers heads forward_expansion dropout
       max_length g =
     bindC (nn_Embedding gen trg_vocab_size embed_size g) (\<lambda>word_embedding g.
     bindC (nn_Embedding gen max_length embed_size g) (\<lambda>position_embedding g.
     bindC (make_layers (DecoderBlock_init gen embed_size heads forward_expansion dropout)
              (nat num_layers) g) (\<lambda>layers g.
     bindC (nn_Linear gen embed_size trg_vocab_size g) (\<lambda>fc_out g.
     bindC (nn_Dropout dropout, g) (\<lambda>drop g.
       (Inr \<lparr>dec_word_embedding = word_embedding,
              dec_position_embedding = position_embedding, dec_layers = layers,
              dec_fc_out = fc_out, dec_dropout = drop\<rparr>, g))))))"

fun Decoder_layers ::
    "DecoderBlock list \<Rightarrow> (nat \<Rightarrow> bool) \<Rightarrow> real tensor \<Rightarrow> real tensor \<Rightarrow> mask option
     \<Rightarrow> mask option \<Rightarrow> nat \<Rightarrow> error + (real tensor \<times> nat)" where
  "Decoder_layers [] rnd x enc_out src_mask trg_mask g = Inr (x, g)"
| "Decoder_layers (layer # layers) rnd x enc_out src_mask trg_mask g =
     bindE (DecoderBlock_forward layer rnd x enc_out enc_out src_mask trg_mask g) (\<lambda>(x, g).
       Decoder_layers layers rnd x enc_out src_mask trg_mask g)"

text \<open>The hidden state after the last decoder layer (lines 370 to 378).\<close>

definition Decoder_hidden ::
    "Decoder \<Rightarrow> (nat \<Rightarrow> bool) \<Rightarrow> int tensor \<Rightarrow> real tensor \<Rightarrow> mask option \<Rightarrow> mask option
     \<Rightarrow> nat \<Rightarrow> error + (real tensor \<times> nat)" where
  "Decoder_hidden dec rnd x enc_out src_mask trg_mask g =
     bindE (embed_tokens (dec_word_embedding dec) (dec_position_embedding dec) x) (\<lambda>e.
     bindE (Dropout_forward (dec_dropout dec) rnd e g) (\<lambda>(x, g).
       Decoder_layers (dec_layers dec) rnd x enc_out src_mask trg_mask g))"

definition Decoder_forward ::
    "Decoder \<Rightarrow> (nat \<Rightarrow> bool) \<Rightarrow> int tensor \<Rightarrow> real tensor \<Rightarrow> mask option \<Rightarrow> mask option
     \<Rightarrow> nat \<Rightarrow> error + (real tensor \<times> nat)" where
  "Decoder_forward dec rnd x enc_out src_mask trg_mask g =
     bindE (Decoder_hidden dec rnd x enc_out src_mask trg_mask g) (\<lambda>(x, g).
     bindE (Linear_forward (dec_fc_out dec) x) (\<lambda>out.
       Inr (out, g)))"

subsection \<open>Transformer\<close>

record Transformer =
  tr_encoder :: Encoder
  tr_decoder :: Decoder
  tr_src_pad_idx :: int
  tr_trg_pad_idx :: int

definition Transformer_init ::
    "(nat \<Rightarrow> real) \<Rightarrow> int \<Rightarrow> int \<Rightarrow> int \<Rightarrow> int \<Rightarrow> int \<Rightarrow> int \<Rightarrow> int \<Rightarrow> int \<Rightarrow> real \<Rightarrow> int \<Rightarrow> nat
     \<Rightarrow> (error + Transformer) \<times> nat" where
  "Transformer_init gen src_vocab_size trg_vocab_size src_pad_idx trg_pad_idx embed_size
       num_layers forward_expansion heads dropout max_length g =
     bindC (Encoder_init gen src_vocab_size embed_size num_layers heads forward_expansion
              dropout max_length g) (\<lambda>encoder g.
     bindC (Decoder_init gen trg_vocab_size embed_size num_layers heads forward_expansion
              dropout max_length g) (\<lambda>decoder g.
       (Inr \<lparr>tr_encoder = encoder, tr_decoder = decoder, tr_src_pad_idx = src_pad_idx,
              tr_trg_pad_idx = trg_pad_idx\<rparr>, g)))"

definition make_src_mask :: "Transformer \<Rightarrow> int tensor \<Rightarrow> error + mask" where
  "make_src_mask tr src =
     bindE (unsqueeze (tabulate (shape src) (\<lambda>idx. entry src idx \<noteq> tr_src_pad_idx tr)) 1)
       (\<lambda>m. bindE (unsqueeze m 2) (\<lambda>src_mask. Inr (BoolMask src_mask)))"

definition make_trg_mask :: "Transformer \<Rightarrow> int tensor \<Rightarrow> error + mask" where
  "make_trg_mask tr trg =
     bindE (shape2 trg) (\<lambda>(N, trg_len).
     bindE (tril (ones [trg_len, trg_len])) (\<lambda>t.
     bindE (expand t [N, 1, trg_len, trg_len]) (\<lambda>trg_mask.
       Inr (FloatMask trg_mask))))"

definition Transformer_forward ::
    "Transformer \<Rightarrow> (nat \<Rightarrow> bool) \<Rightarrow> int tensor \<Rightarrow> int tensor \<Rightarrow> nat
     \<Rightarrow> error + (real tensor \<times> nat)" where
  "Transformer_forward tr rnd src trg g =
     bindE (make_src_mask tr src) (\<lambda>src_mask.
     bindE (make_trg_mask tr trg) (\<lambda>trg_mask.
     bindE (Encoder_forward (tr_encoder tr) rnd src (Some src_mask) g) (\<lambda>(enc_src, g).
       Decoder_forward (tr_decoder tr) rnd trg enc_src (Some src_mask) (Some trg_mask) g)))"

section \<open>Well-shaped modules and inputs\<close>

text \<open>
  What a successful construction establishes and training keeps: the shapes of the
  parameter tensors, for embedding size \<open>E\<close>, \<open>H\<close> heads, expansion factor \<open>F\<close>,
  vocabulary size \<open>V\<close> and maximal length \<open>M\<close>. \<open>mask_fits sh msk\<close> holds when
  there is no mask or its shape broadcasts to the energy shape \<open>sh\<close>.
\<close>

definition wf_Linear :: "nat \<Rightarrow> nat \<Rightarrow> Linear \<Rightarrow> bool" where
  "wf_Linear inp out l = (shape (lin_weight l) = [out, inp] \<and> shape (lin_bias l) = [out])"

definition wf_LayerNorm :: "nat \<Rightarrow> LayerNorm \<Rightarrow> bool" where
  "wf_LayerNorm e ly = (shape (ln_weight ly) = [e] \<and> shape (ln_bias ly) = [e])"

definition wf_Embedding :: "nat \<Rightarrow> nat \<Rightarrow> Embedding \<Rightarrow> bool" where
  "wf_Embedding num e emb = (shape (emb_weight emb) = [num, e])"

definition wf_Dropout :: "Dropout \<Rightarrow> bool" where
  "wf_Dropout d = (0 \<le> drop_p d \<and> drop_p d \<le> 1)"

definition wf_SelfAttention :: "nat \<Rightarrow> nat \<Rightarrow> SelfAttention \<Rightarrow> bool" where
  "wf_SelfAttention E H sa =
     (0 < H \<and> E div H * H = E
      \<and> sa_embed_size sa = int E \<and> sa_heads sa = int H \<and> sa_head_dim sa = int (E div H)
      \<and> wf_Linear E E (sa_values sa) \<and> wf_Linear E E (sa_keys sa)
      \<and> wf_Linear E E (sa_queries sa) \<and> wf_Linear E E (sa_fc_out sa))"

definition wf_TransformerBlock :: "nat \<Rightarrow> nat \<Rightarrow> nat \<Rightarrow> TransformerBlock \<Rightarrow> bool" where
  "wf_TransformerBlock E H F tb =
     (wf_SelfAttention E H (tb_attention tb)
      \<and> wf_LayerNorm E (tb_norm1 tb) \<and> wf_LayerNorm E (tb_norm2 tb)
      \<and> wf_Linear E (F * E) (fst (tb_feed_forward tb))
      \<and> wf_Linear (F * E) E (snd (tb_feed_forward tb))
      \<and> wf_Dropout (tb_dropout tb))"

definition wf_DecoderBlock :: "nat \<Rightarrow> nat \<Rightarrow> nat \<Rightarrow> DecoderBlock \<Rightarrow> bool" where
  "wf_DecoderBlock E H F db =
     (wf_LayerNorm E (db_norm db) \<and> wf_SelfAttention E H (db_attention db)
      \<and> wf_TransformerBlock E H F (db_transformer_block db)
      \<and> wf_Dropout (db_dropout db))"

definition wf_Decoder :: "nat \<Rightarrow> nat \<Rightarrow> nat \<Rightarrow> nat \<Rightarrow> nat \<Rightarrow> Decoder \<Rightarrow> bool" where
  "wf_Decoder E H F V M dec =
     (wf_Embedding V E (dec_word_embedding dec)
      \<and> wf_Embedding M E (dec_position_embedding dec)
      \<and> list_all (wf_DecoderBlock E H F) (dec_layers dec)
      \<and> wf_Linear E V (dec_fc_out dec)
      \<and> wf_Dropout (dec_dropout dec))"

definition mask_fits :: "nat list \<Rightarrow> mask option \<Rightarrow> bool" where
  "mask_fits sh msk =
     (case msk of
        None \<Rightarrow> True
      | Some m \<Rightarrow> broadcast_shapes sh (mask_shape m) = Inr sh)"

text \<open>A token tensor holds one id per index, each id in the vocabulary.\<close>

definition wf_tokens :: "nat \<Rightarrow> int tensor \<Rightarrow> bool" where
  "wf_tokens V x =
     (length (data x) = prod_list (shape x) \<and> list_all (\<lambda>t. 0 \<le> t \<and> t < int V) (data x))"

text \<open>
  A model without dropout: every \<^verbatim>\<open>nn.Dropout\<close> in it has probability 0, as after
  construction with \<^verbatim>\<open>dropout=0\<close>. \<open>rewind g r\<close> is the result \<open>r\<close> with the
  generator position set back to \<open>g\<close>.
\<close>

definition no_dropout_tb :: "TransformerBlock \<Rightarrow> bool" where
  "no_dropout_tb tb = (drop_p (tb_dropout tb) = 0)"

definition no_dropout_db :: "DecoderBlock \<Rightarrow> bool" where
  "no_dropout_db db = (drop_p (db_dropout db) = 0 \<and> no_dropout_tb (db_transformer_block db))"

definition no_dropout :: "Transformer \<Rightarrow> bool" where
  "no_dropout tr =
     (drop_p (enc_dropout (tr_encoder tr)) = 0
      \<and> list_all no_dropout_tb (enc_layers (tr_encoder tr))
      \<and> drop_p (dec_dropout (tr_decoder tr)) = 0
      \<and> list_all no_dropout_db (dec_layers (tr_decoder tr)))"

definition rewind :: "nat \<Rightarrow> error + ('a \<times> nat) \<Rightarrow> error + ('a \<times> nat)" where
  "rewind g r = bindE r (\<lambda>(y, g'). Inr (y, g))"

section \<open>A small model\<close>

text \<open>
  Concrete modules on which the theorems below are instantiated: embedding size 1, one
  head, one layer, vocabularies of two tokens, padding id 0, no dropout. The query
  projection negates its input, all other projections are the identity.
\<close>

definition lin11 :: "real \<Rightarrow> real \<Rightarrow> Linear" where
  "lin11 w b = \<lparr>lin_weight = Tensor [1, 1] [w], lin_bias = Tensor [1] [b]\<rparr>"

definition tiny_sa :: SelfAttention where
  "tiny_sa = \<lparr>sa_embed_size = 1, sa_heads = 1, sa_head_dim = 1,
     sa_values = lin11 1 0, sa_keys = lin11 1 0, sa_queries = lin11 (- 1) 0,
     sa_fc_out = lin11 1 0\<rparr>"

definition tiny_norm :: LayerNorm where
  "tiny_norm = \<lparr>ln_weight = Tensor [1] [1], ln_bias = Tensor [1] [0], ln_eps = 1 / 10 ^ 5\<rparr>"

definition tiny_dropout :: Dropout where
  "tiny_dropout = \<lparr>drop_p = 0, drop_training = True\<rparr>"

definition tiny_block :: TransformerBlock where
  "tiny_block = \<lparr>tb_attention = tiny_sa, tb_norm1 = tiny_norm, tb_norm2 = tiny_norm,
     tb_feed_forward = (lin11 1 0, lin11 1 0), tb_dropout = tiny_dropout\<rparr>"

definition tiny_embedding :: Embedding where
  "tiny_embedding = \<lparr>emb_weight = Tensor [2, 1] [0, 1]\<rparr>"

definition tiny_encoder :: Encoder where
  "tiny_encoder = \<lparr>enc_embed_size = 1, enc_word_embedding = tiny_embedding,
     enc_position_embedding = tiny_embedding, enc_layers = [tiny_block],
     enc_dropout = tiny_dropout\<rparr>"

definition tiny_decoder_block :: DecoderBlock where
  "tiny_decoder_block = \<lparr>db_norm = tiny_norm, db_attention = tiny_sa,
     db_transformer_block = tiny_block, db_dropout = tiny_dropout\<rparr>"

definition tiny_decoder :: Decoder where
  "tiny_decoder = \<lparr>dec_word_embedding = tiny_embedding,
     dec_position_embedding = tiny_embedding, dec_layers = [tiny_decoder_block],
     dec_fc_out = \<lparr>lin_weight = Tensor [2, 1] [1, 2], lin_bias = Tensor [2] [0, 0]\<rparr>,
     dec_dropout = tiny_dropout\<rparr>"

definition tiny_transformer :: Transformer where
  "tiny_transformer = \<lparr>tr_encoder = tiny_encoder, tr_decoder = tiny_decoder,
     tr_src_pad_idx = 0, tr_trg_pad_idx = 0\<rparr>"

text \<open>A mixer with embedding size 2 and two heads of size 1; its projections are the identity.\<close>

definition eye2 :: Linear where
  "eye2 = \<lparr>lin_weight = Tensor [2, 2] [1, 0, 0, 1], lin_bias = Tensor [2] [0, 0]\<rparr>"

definition duo_sa :: SelfAttention where
  "duo_sa = \<lparr>sa_embed_size = 2, sa_heads = 2, sa_head_dim = 1,
     sa_values = eye2, sa_keys = eye2, sa_queries = eye2, sa_fc_out = eye2\<rparr>"

section \<open>Basic facts\<close>

lemma bindE_Inr [simp]: "bindE (Inr x) f = f x"
  by (simp add: bindE_def)

lemma bindE_Inl [simp]: "bindE (Inl e) f = Inl e"
  by (simp add: bindE_def)

lemma bindC_Inr [simp]: "bindC (Inr x, g) f = f x g"
  by (simp add: bindC_def)

lemma bindC_Inl [simp]: "bindC (Inl e, g) f = (Inl e, g)"
  by (simp add: bindC_def)

lemma length_indices: "length (indices sh) = prod_list sh"
proof (induction sh)
  case Nil
  then show ?case by simp
next
  case (Cons n sh)
  have "length (concat (map (\<lambda>i. map ((#) i) (indices sh)) [0..<n])) = n * prod_list sh"
    by (simp add: length_concat comp_def Cons.IH sum_list_triv)
  then show ?case by simp
qed

lemma nth_concat_uniform:
  "\<forall>xs \<in> set xss. length xs = m \<Longrightarrow> i < length xss \<Longrightarrow> r < m \<Longrightarrow>
   concat xss ! (i * m + r) = xss ! i ! r"
proof (induction xss arbitrary: i)
  case Nil
  then show ?case by simp
next
  case (Cons xs xss)
  show ?case
  proof (cases i)
    case 0
    with Cons.prems show ?thesis by (simp add: nth_append)
  next
    case (Suc j)
    with Cons.prems have "concat xss ! (j * m + r) = xss ! j ! r"
      by (intro Cons.IH) auto
    with Suc Cons.prems show ?thesis by (simp add: nth_append add.assoc)
  qed
qed

lemma valid_index_Cons:
  "valid_index (n # sh) idx = (\<exists>i rest. idx = i # rest \<and> i < n \<and> valid_index sh rest)"
  by (auto simp: valid_index_def list_all2_Cons2)

lemma valid_index_simps [simp]:
  "valid_index [] idx = (idx = [])"
  "valid_index (n # sh) (i # rest) = (i < n \<and> valid_index sh rest)"
  "valid_index (n # sh) [] = False"
  by (auto simp: valid_index_def)

lemma ravel_less: "valid_index sh idx \<Longrightarrow> ravel sh idx < prod_list sh"
proof (induction sh arbitrary: idx)
  case Nil
  then show ?case by simp
next
  case (Cons n sh)
  from Cons.prems obtain i rest where idx: "idx = i # rest" and i: "i < n" and v: "valid_index sh rest"
    by (auto simp: valid_index_Cons)
  from Cons.IH[OF v] have r: "ravel sh rest < prod_list sh" .
  have "i * prod_list sh + ravel sh rest < i * prod_list sh + prod_list sh" using r by simp
  also have "\<dots> = Suc i * prod_list sh" by simp
  also have "\<dots> \<le> n * prod_list sh" using i by (intro mult_le_mono1) simp
  finally show ?case by (simp add: idx)
qed

lemma indices_ravel: "valid_index sh idx \<Longrightarrow> indices sh ! ravel sh idx = idx"
proof (induction sh arbitrary: idx)
  case Nil
  then show ?case by simp
next
  case (Cons n sh)
  from Cons.prems obtain i rest where idx: "idx = i # rest" and i: "i < n" and v: "valid_index sh rest"
    by (auto simp: valid_index_Cons)
  let ?xss = "map (\<lambda>i. map ((#) i) (indices sh)) [0..<n]"
  have "concat ?xss ! (i * prod_list sh + ravel sh rest) = ?xss ! i ! ravel sh rest"
    by (rule nth_concat_uniform) (use i ravel_less[OF v] in \<open>auto simp: length_indices\<close>)
  also have "\<dots> = i # indices sh ! ravel sh rest"
    using i ravel_less[OF v] by (simp add: length_indices)
  finally show ?case by (simp add: idx Cons.IH[OF v])
qed

lemma entry_tabulate: "valid_index sh idx \<Longrightarrow> entry (tabulate sh f) idx = f idx"
  using ravel_less[of sh idx] indices_ravel[of sh idx]
  by (simp add: entry_def tabulate_def length_indices)

lemma shape_tabulate [simp]: "shape (tabulate sh f) = sh"
  by (simp add: tabulate_def)

lemma valid_index_length: "valid_index sh idx \<Longrightarrow> length idx = length sh"
  by (simp add: valid_index_def list_all2_lengthD)

lemma bidx_id: "valid_index sh idx \<Longrightarrow> bidx sh idx = idx"
proof -
  assume v: "valid_index sh idx"
  then have "list_all2 (<) idx sh" by (simp add: valid_index_def)
  then have "map2 (\<lambda>d i. if d = 1 then 0 else i) sh idx = idx"
    by (induction rule: list_all2_induct) auto
  with valid_index_length[OF v] show ?thesis by (simp add: bidx_def)
qed

lemma broadcast_rev_same: "broadcast_rev xs xs = Inr xs"
  by (induction xs) auto

lemma broadcast_shapes_same: "broadcast_shapes sh sh = Inr sh"
  by (simp add: broadcast_shapes_def broadcast_rev_same)

lemma make_trg_mask_eq:
  "shape trg = [N, T] \<Longrightarrow>
   make_trg_mask tr trg =
     Inr (FloatMask (tabulate [N, 1, T, T] (\<lambda>idx.
       entry (tabulate [T, T] (\<lambda>idx. if idx ! 1 \<le> idx ! 0 then entry (ones [T, T]) idx else 0))
         (bidx [T, T] idx))))"
  by (simp add: make_trg_mask_def shape2_def tril_def ones_def[symmetric] expand_def) (simp add: ones_def)

lemma make_trg_mask_entry:
  assumes "shape trg = [N, T]" "n < N" "i < T" "j < T"
  shows "\<exists>m. make_trg_mask tr trg = Inr (FloatMask m) \<and> shape m = [N, 1, T, T]
           \<and> entry m [n, 0, i, j] = (if j \<le> i then 1 else 0)"
  using assms
  by (simp add: make_trg_mask_eq entry_tabulate bidx_def ones_def)

section \<open>Shapes of the operations\<close>

lemma Linear_forward_ok:
  assumes "wf_Linear inp out l" "shape x = pre @ [inp]"
  shows "\<exists>y. Linear_forward l x = Inr y \<and> shape y = pre @ [out]"
  using assms by (simp add: Linear_forward_def wf_Linear_def)

lemma reshape_ok:
  assumes "list_all (\<lambda>d. 0 \<le> d) dims" "prod_list (map nat dims) = prod_list (shape t)"
  shows "reshape t dims = Inr (Tensor (map nat dims) (data t))"
proof -
  from assms(1) have a: "\<not> list_ex (\<lambda>d. d < - 1) dims" and b: "filter (\<lambda>d. d = - 1) dims = []"
    and c: "\<not> list_ex (\<lambda>d. d = - 1) dims"
    by (auto simp: list_all_iff list_ex_iff filter_empty_conv)
  show ?thesis using a b c assms(2) by (simp add: reshape_def)
qed

lemma bdim_same [simp]: "bdim n n = Inr n"
  by (simp add: bdim_def)

lemma einsum_nqhd_nkhd_nhqk_ok:
  assumes "shape a = [n, q, h, d]" "shape b = [n, k, h, d]"
  shows "\<exists>e. einsum_nqhd_nkhd_nhqk a b = Inr e \<and> shape e = [n, h, q, k]"
  using assms by (simp add: einsum_nqhd_nkhd_nhqk_def)

lemma einsum_nhql_nlhd_nqhd_ok:
  assumes "shape a = [n, h, q, l]" "shape b = [n, l, h, d]"
  shows "\<exists>e. einsum_nhql_nlhd_nqhd a b = Inr e \<and> shape e = [n, q, h, d]"
  using assms by (simp add: einsum_nhql_nlhd_nqhd_def)

lemma shape_mask_eq_zero [simp]: "shape (mask_eq_zero m) = mask_shape m"
  by (simp add: mask_eq_zero_def mask_shape_def split: mask.splits)

lemma SelfAttention_energy_ok:
  assumes "shape queries = [n, q, h, d]" "shape keys = [n, k, h, d]" "mask_fits [n, h, q, k] msk"
  shows "\<exists>e. SelfAttention_energy queries keys msk = Inr e \<and> shape e = [n, h, q, k]"
proof -
  from einsum_nqhd_nkhd_nhqk_ok[OF assms(1,2)] obtain e
    where e: "einsum_nqhd_nkhd_nhqk queries keys = Inr e" "shape e = [n, h, q, k]" by blast
  show ?thesis
  proof (cases msk)
    case None
    with e show ?thesis by (simp add: SelfAttention_energy_def)
  next
    case (Some m)
    with assms(3) have "broadcast_shapes [n, h, q, k] (mask_shape m) = Inr [n, h, q, k]"
      by (simp add: mask_fits_def)
    with e Some show ?thesis
      by (simp add: SelfAttention_energy_def masked_fill_def binop_def)
  qed
qed

lemma SelfAttention_softmax_ok:
  assumes "shape e = [n, h, q, k]"
  shows "\<exists>a. SelfAttention_softmax sa e = Inr a \<and> shape a = [n, h, q, k]"
  using assms by (simp add: SelfAttention_softmax_def softmax_def div_scalar_def)

lemma shape_at_simps [simp]:
  "i < length (shape t) \<Longrightarrow> shape_at t i = Inr (shape t ! i)"
  by (simp add: shape_at_def)

lemma SelfAttention_heads_ok:
  assumes wf: "wf_SelfAttention E H sa"
    and sh: "shape values = [N, Lv, E]" "shape keys = [N, Lk, E]" "shape query = [N, Q, E]"
  shows "\<exists>v k q. SelfAttention_heads sa values keys query = Inr (N, Q, v, k, q)
           \<and> shape v = [N, Lv, H, E div H]
           \<and> shape k = [N, Lk, H, E div H]
           \<and> shape q = [N, Q, H, E div H]"
proof -
  from wf have lin: "wf_Linear E E (sa_values sa)" "wf_Linear E E (sa_keys sa)"
      "wf_Linear E E (sa_queries sa)"
    and hd: "sa_heads sa = int H" "sa_head_dim sa = int (E div H)" and dv: "E div H * H = E"
    by (simp_all add: wf_SelfAttention_def)
  from Linear_forward_ok[OF lin(1), of "values" "[N, Lv]"] sh obtain v0
    where v0: "Linear_forward (sa_values sa) values = Inr v0" "shape v0 = [N, Lv, E]" by auto
  from Linear_forward_ok[OF lin(2), of keys "[N, Lk]"] sh obtain k0
    where k0: "Linear_forward (sa_keys sa) keys = Inr k0" "shape k0 = [N, Lk, E]" by auto
  from Linear_forward_ok[OF lin(3), of query "[N, Q]"] sh obtain q0
    where q0: "Linear_forward (sa_queries sa) query = Inr q0" "shape q0 = [N, Q, E]" by auto
  have hE: "H * (E div H) = E" using dv by (simp add: mult.commute)
  have r: "reshape t [int n, int l, int H, int (E div H)] = Inr (Tensor [n, l, H, E div H] (data t))"
    if "shape t = [n, l, E]" for t :: "real tensor" and n l
    by (rule reshape_ok[THEN trans]) (use that hE in simp_all)
  show ?thesis
    using sh v0 k0 q0 by (simp add: SelfAttention_heads_def hd r)
qed

lemma SelfAttention_forward_ok:
  assumes wf: "wf_SelfAttention E H sa"
    and sh: "shape values = [N, L, E]" "shape keys = [N, L, E]" "shape query = [N, Q, E]"
    and m: "mask_fits [N, H, Q, L] msk"
  shows "\<exists>out. SelfAttention_forward sa values keys query msk = Inr out \<and> shape out = [N, Q, E]"
proof -
  from SelfAttention_heads_ok[OF wf sh] obtain v k q
    where h: "SelfAttention_heads sa values keys query = Inr (N, Q, v, k, q)"
      and s: "shape v = [N, L, H, E div H]" "shape k = [N, L, H, E div H]"
             "shape q = [N, Q, H, E div H]" by blast
  from SelfAttention_energy_ok[OF s(3) s(2) m] obtain e
    where e: "SelfAttention_energy q k msk = Inr e" "shape e = [N, H, Q, L]" by blast
  from SelfAttention_softmax_ok[OF e(2)] obtain a
    where a: "SelfAttention_softmax sa e = Inr a" "shape a = [N, H, Q, L]" by blast
  from einsum_nhql_nlhd_nqhd_ok[OF a(2) s(1)] obtain out
    where o: "einsum_nhql_nlhd_nqhd a v = Inr out" "shape out = [N, Q, H, E div H]" by blast
  from wf have hd: "sa_heads sa = int H" "sa_head_dim sa = int (E div H)" and dv: "E div H * H = E"
    and fc: "wf_Linear E E (sa_fc_out sa)"
    by (simp_all add: wf_SelfAttention_def)
  have hE: "H * (E div H) = E" using dv by (simp add: mult.commute)
  have "reshape out [int N, int Q, int H * int (E div H)] = Inr (Tensor [N, Q, E] (data out))"
    by (rule reshape_ok[THEN trans]) (use o(2) hE in \<open>simp_all flip: of_nat_mult\<close>)
  moreover from Linear_forward_ok[OF fc, of "Tensor [N, Q, E] (data out)" "[N, Q]"]
  obtain y where "Linear_forward (sa_fc_out sa) (Tensor [N, Q, E] (data out)) = Inr y"
      "shape y = [N, Q, E]" by auto
  ultimately show ?thesis
    using h e a o by (simp add: SelfAttention_forward_def hd)
qed

section \<open>Broadcasting, softmax and the masked energy\<close>

lemma broadcast_rev_valid:
  "broadcast_rev xs ys = Inr zs \<Longrightarrow> list_all2 (<) js zs \<Longrightarrow>
   list_all2 (<) (map2 (\<lambda>d i. if d = 1 then 0 else i) ys (take (length ys) js)) ys"
proof (induction xs ys arbitrary: zs js rule: broadcast_rev.induct)
  case (1 ys)
  then have "list_all2 (<) js ys" by simp
  then show ?case
    by (induction rule: list_all2_induct) auto
next
  case (2 x xs)
  then show ?case by simp
next
  case (3 x xs y ys)
  from "3.prems"(1) obtain r where r: "broadcast_rev xs ys = Inr r"
    and zs: "zs = (if x = y \<or> y = 1 then x else y) # r" and ok: "x = y \<or> y = 1 \<or> x = 1"
    by (auto simp: bindE_def split: if_splits sum.splits)
  from "3.prems"(2) zs obtain i rest where js: "js = i # rest"
    and i: "i < (if x = y \<or> y = 1 then x else y)" and rest: "list_all2 (<) rest r"
    by (auto simp: list_all2_Cons2)
  have tl: "list_all2 (<) (map2 (\<lambda>d i. if d = 1 then 0 else i) ys (take (length ys) rest)) ys"
  proof (cases "x = y \<or> y = 1")
    case True
    from "3.IH"(1)[OF True r rest] show ?thesis .
  next
    case False
    with ok have x1: "x = 1" by simp
    from "3.IH"(2)[OF False x1 r rest] show ?thesis .
  qed
  have "(if y = 1 then 0 else i) < y" using i ok by (auto split: if_splits)
  with tl show ?case by (simp add: js)
qed

lemma broadcast_rev_length:
  "broadcast_rev xs ys = Inr zs \<Longrightarrow> length zs = max (length xs) (length ys)"
  by (induction xs ys arbitrary: zs rule: broadcast_rev.induct)
     (auto simp: bindE_def split: if_splits sum.splits)

lemma bidx_valid:
  assumes b: "broadcast_shapes a b = Inr sh" and v: "valid_index sh idx"
  shows "valid_index b (bidx b idx)"
proof -
  from b obtain zs where zs: "broadcast_rev (rev a) (rev b) = Inr zs" and sh: "sh = rev zs"
    by (auto simp: broadcast_shapes_def bindE_def split: sum.splits)
  from v sh have v': "list_all2 (<) (rev idx) zs"
    by (simp add: valid_index_def list_all2_rev1)
  from broadcast_rev_length[OF zs] have len: "length b \<le> length idx"
    using valid_index_length[OF v] sh by simp
  let ?f = "\<lambda>d i. if d = 1 then 0 else (i::nat)"
  from broadcast_rev_valid[OF zs v']
  have "list_all2 (<) (map2 ?f (rev b) (take (length b) (rev idx))) (rev b)" by simp
  also have "take (length b) (rev idx) = rev (drop (length idx - length b) idx)"
    using len by (simp add: rev_drop)
  also have "map2 ?f (rev b) (rev (drop (length idx - length b) idx))
             = rev (map2 ?f b (drop (length idx - length b) idx))"
    using len by (simp add: zip_rev rev_map)
  finally show ?thesis by (simp add: valid_index_def bidx_def list_all2_rev1)
qed

lemma exp_over_sum_le:
  fixes x :: "nat \<Rightarrow> real"
  assumes "u < K"
  shows "exp (x j) / (\<Sum>k<K. exp (x k)) \<le> exp (x j - x u)"
proof -
  have "exp (x u) \<le> (\<Sum>k<K. exp (x k))"
    using assms by (intro member_le_sum) auto
  then have "exp (x j) / (\<Sum>k<K. exp (x k)) \<le> exp (x j) / exp (x u)"
    by (intro divide_left_mono) (auto intro: mult_pos_pos less_le_trans[OF exp_gt_zero])
  then show ?thesis by (simp add: exp_diff)
qed

lemma sum_list_upt: "sum_list (map f [0..<n]) = (\<Sum>k<n. f k)"
  by (simp add: interv_sum_list_conv_sum_set_nat atLeast0LessThan)

lemma SelfAttention_softmax_entry:
  assumes sh: "shape e = [N, H, Q, K]" and v: "n < N" "h < H" "i < Q" "j < K"
  shows "\<exists>a. SelfAttention_softmax sa e = Inr a \<and> shape a = [N, H, Q, K]
           \<and> entry a [n, h, i, j]
               = exp (entry e [n, h, i, j] / sqrt (real_of_int (sa_embed_size sa)))
                 / (\<Sum>k<K. exp (entry e [n, h, i, k] / sqrt (real_of_int (sa_embed_size sa))))"
proof -
  let ?c = "sqrt (real_of_int (sa_embed_size sa))"
  have d: "entry (div_scalar e ?c) [n, h, i, k] = entry e [n, h, i, k] / ?c" if "k < K" for k
    using that v sh by (simp add: div_scalar_def entry_tabulate)
  have s: "sum_list (map (\<lambda>k. exp (entry (div_scalar e ?c) [n, h, i, k])) [0..<K])
        = (\<Sum>k<K. exp (entry e [n, h, i, k] / ?c))"
    unfolding sum_list_upt[symmetric]
    by (rule arg_cong[where f = sum_list], rule map_cong) (simp_all add: d)
  have "softmax (div_scalar e ?c) 3
        = Inr (tabulate [N, H, Q, K] (\<lambda>idx. exp (entry (div_scalar e ?c) idx)
             / sum_list (map (\<lambda>k. exp (entry (div_scalar e ?c) (idx[3 := k]))) [0..<K])))"
    using sh by (simp add: softmax_def div_scalar_def)
  then show ?thesis
    using v by (simp add: SelfAttention_softmax_def entry_tabulate s d)
qed

lemma mask_eq_zero_entry:
  assumes "valid_index (mask_shape m) (bidx (mask_shape m) idx)"
  shows "entry (mask_eq_zero m) (bidx (mask_shape m) idx) = (mask_at m idx = 0)"
proof (cases m)
  case (BoolMask b)
  with assms have "valid_index (shape b) (bidx (shape b) idx)" by (simp add: mask_shape_def)
  then have "valid_index (shape b) (bidx (shape b) (bidx (shape b) idx))"
    by (simp add: bidx_id)
  with BoolMask assms show ?thesis
    by (simp add: mask_eq_zero_def mask_at_def mask_shape_def entry_tabulate)
next
  case (FloatMask f)
  with assms show ?thesis
    by (simp add: mask_eq_zero_def mask_at_def mask_shape_def entry_tabulate)
qed

lemma SelfAttention_energy_entry:
  assumes q: "shape queries = [N, Q, H, D]" and k: "shape keys = [N, K, H, D]"
    and b: "broadcast_shapes [N, H, Q, K] (mask_shape m) = Inr [N, H, Q, K]"
    and v: "n < N" "h < H" "i < Q" "j < K"
  shows "\<exists>e0 e. einsum_nqhd_nkhd_nhqk queries keys = Inr e0 \<and> shape e0 = [N, H, Q, K]
           \<and> SelfAttention_energy queries keys (Some m) = Inr e \<and> shape e = [N, H, Q, K]
           \<and> entry e [n, h, i, j]
               = (if mask_at m [n, h, i, j] = 0 then - (10 ^ 20) else entry e0 [n, h, i, j])"
proof -
  from einsum_nqhd_nkhd_nhqk_ok[OF q k] obtain e0
    where e0: "einsum_nqhd_nkhd_nhqk queries keys = Inr e0" "shape e0 = [N, H, Q, K]" by blast
  have vi: "valid_index [N, H, Q, K] [n, h, i, j]" using v by simp
  from bidx_valid[OF b vi]
  have vm: "valid_index (mask_shape m) (bidx (mask_shape m) [n, h, i, j])" .
  have "SelfAttention_energy queries keys (Some m)
        = Inr (tabulate [N, H, Q, K] (\<lambda>idx.
            if entry (mask_eq_zero m) (bidx (mask_shape m) idx) then - (10 ^ 20)
            else entry e0 (bidx [N, H, Q, K] idx)))"
    using e0 b by (simp add: SelfAttention_energy_def masked_fill_def binop_def cong: if_cong)
  with e0 show ?thesis
    by (simp add: entry_tabulate[OF vi] mask_eq_zero_entry[OF vm] bidx_id[OF vi])
qed

lemma SelfAttention_attention_entry:
  assumes wf: "wf_SelfAttention E H sa"
    and sh: "shape values = [N, L, E]" "shape keys = [N, L, E]" "shape query = [N, Q, E]"
    and m: "mask_fits [N, H, Q, L] msk"
    and v: "n < N" "h < H" "i < Q" "j < L"
  shows "\<exists>v k q energy attention.
      SelfAttention_heads sa values keys query = Inr (N, Q, v, k, q)
    \<and> shape k = [N, L, H, E div H] \<and> shape q = [N, Q, H, E div H]
    \<and> SelfAttention_energy q k msk = Inr energy
    \<and> shape energy = [N, H, Q, L]
    \<and> SelfAttention_attention sa values keys query msk = Inr attention
    \<and> shape attention = [N, H, Q, L]
    \<and> entry attention [n, h, i, j]
        = exp (entry energy [n, h, i, j] / sqrt (real E))
          / (\<Sum>c<L. exp (entry energy [n, h, i, c] / sqrt (real E)))"
proof -
  from SelfAttention_heads_ok[OF wf sh] obtain v k q
    where hd: "SelfAttention_heads sa values keys query = Inr (N, Q, v, k, q)"
      and s: "shape k = [N, L, H, E div H]" "shape q = [N, Q, H, E div H]" by blast
  from SelfAttention_energy_ok[OF s(2) s(1) m] obtain energy
    where e: "SelfAttention_energy q k msk = Inr energy" "shape energy = [N, H, Q, L]" by blast
  from wf have E: "sa_embed_size sa = int E" by (simp add: wf_SelfAttention_def)
  from SelfAttention_softmax_entry[OF e(2) v, of sa] obtain a
    where a: "SelfAttention_softmax sa energy = Inr a" "shape a = [N, H, Q, L]"
      "entry a [n, h, i, j]
        = exp (entry energy [n, h, i, j] / sqrt (real E))
          / (\<Sum>c<L. exp (entry energy [n, h, i, c] / sqrt (real E)))"
    by (auto simp: E)
  have "SelfAttention_attention sa values keys query msk = Inr a"
    using hd e a(1) by (simp add: SelfAttention_attention_def)
  with hd s e a show ?thesis by blast
qed

lemma SelfAttention_attention_masked:
  assumes wf: "wf_SelfAttention E H sa" and E: "0 < E"
    and sh: "shape values = [N, L, E]" "shape keys = [N, L, E]" "shape query = [N, Q, E]"
    and b: "broadcast_shapes [N, H, Q, L] (mask_shape m) = Inr [N, H, Q, L]"
    and v: "n < N" "h < H" "i < Q" "j < L" "u < L"
    and mj: "mask_at m [n, h, i, j] = 0"
  shows "\<exists>v k q e0 energy attention.
      SelfAttention_heads sa values keys query = Inr (N, Q, v, k, q)
    \<and> einsum_nqhd_nkhd_nhqk q k = Inr e0
    \<and> SelfAttention_energy q k (Some m) = Inr energy
    \<and> entry energy [n, h, i, j] = - (10 ^ 20)
    \<and> SelfAttention_attention sa values keys query (Some m) = Inr attention
    \<and> (mask_at m [n, h, i, u] \<noteq> 0 \<longrightarrow>
         entry energy [n, h, i, u] = entry e0 [n, h, i, u]
         \<and> entry attention [n, h, i, j]
             \<le> exp ((- (10 ^ 20) - entry e0 [n, h, i, u]) / sqrt (real E)))"
proof -
  have m: "mask_fits [N, H, Q, L] (Some m)" using b by (simp add: mask_fits_def)
  from SelfAttention_attention_entry[OF wf sh m v(1-4)] obtain vv k q energy attention
    where hd: "SelfAttention_heads sa values keys query = Inr (N, Q, vv, k, q)"
      and s: "shape k = [N, L, H, E div H]" "shape q = [N, Q, H, E div H]"
      and e: "SelfAttention_energy q k (Some m) = Inr energy"
      and a: "SelfAttention_attention sa values keys query (Some m) = Inr attention"
        "entry attention [n, h, i, j]
          = exp (entry energy [n, h, i, j] / sqrt (real E))
            / (\<Sum>c<L. exp (entry energy [n, h, i, c] / sqrt (real E)))"
    by blast
  from SelfAttention_energy_entry[OF s(2) s(1) b v(1-4)] e mj obtain e0
    where e0: "einsum_nqhd_nkhd_nhqk q k = Inr e0" and ej: "entry energy [n, h, i, j] = - (10 ^ 20)"
    by auto
  from SelfAttention_energy_entry[OF s(2) s(1) b v(1-3) v(5)] e e0
  have eu: "entry energy [n, h, i, u]
            = (if mask_at m [n, h, i, u] = 0 then - (10 ^ 20) else entry e0 [n, h, i, u])"
    by auto
  have "entry attention [n, h, i, j]
        \<le> exp (entry energy [n, h, i, j] / sqrt (real E) - entry energy [n, h, i, u] / sqrt (real E))"
    unfolding a(2) by (rule exp_over_sum_le[OF v(5)])
  then have "entry attention [n, h, i, j]
        \<le> exp ((- (10 ^ 20) - entry energy [n, h, i, u]) / sqrt (real E))"
    by (simp only: ej diff_divide_distrib)
  with hd e0 e ej a(1) eu show ?thesis by auto
qed

lemma bidx_trg:
  "n < N \<Longrightarrow> i < T \<Longrightarrow> j < T \<Longrightarrow> bidx [N, Suc 0, T, T] [n, h, i, j] = [n, 0, i, j]"
  by (auto simp: bidx_def)

section \<open>Shapes through the blocks and the decoder\<close>

lemma add_ok: "shape a = sh \<Longrightarrow> shape b = sh \<Longrightarrow> \<exists>c. add a b = Inr c \<and> shape c = sh"
  by (simp add: add_def binop_def broadcast_shapes_same)

lemma LayerNorm_forward_ok:
  assumes "wf_LayerNorm e ly" "shape x = pre @ [e]"
  shows "\<exists>y. LayerNorm_forward ly x = Inr y \<and> shape y = pre @ [e]"
  using assms by (simp add: LayerNorm_forward_def wf_LayerNorm_def)

lemma Dropout_forward_ok:
  assumes "wf_Dropout d"
  shows "\<exists>y g'. Dropout_forward d rnd x g = Inr (y, g') \<and> shape y = shape x"
  using assms by (auto simp: Dropout_forward_def wf_Dropout_def Let_def)

lemma shape_ReLU [simp]: "shape (ReLU x) = shape x"
  by (simp add: ReLU_def)

lemma TransformerBlock_forward_steps:
  assumes wf: "wf_TransformerBlock E H F tb"
    and sh: "shape value = [N, L, E]" "shape key = [N, L, E]" "shape query = [N, Q, E]"
    and m: "mask_fits [N, H, Q, L] msk"
  shows "\<exists>attention s1 n1 x g1 h1 forward s2 n2 out g2.
      SelfAttention_forward (tb_attention tb) value key query msk = Inr attention
    \<and> add attention query = Inr s1
    \<and> LayerNorm_forward (tb_norm1 tb) s1 = Inr n1
    \<and> Dropout_forward (tb_dropout tb) rnd n1 g = Inr (x, g1)
    \<and> Linear_forward (fst (tb_feed_forward tb)) x = Inr h1 \<and> shape h1 = [N, Q, F * E]
    \<and> Linear_forward (snd (tb_feed_forward tb)) (ReLU h1) = Inr forward
    \<and> add forward x = Inr s2
    \<and> LayerNorm_forward (tb_norm2 tb) s2 = Inr n2
    \<and> Dropout_forward (tb_dropout tb) rnd n2 g1 = Inr (out, g2)
    \<and> TransformerBlock_forward tb rnd value key query msk g = Inr (out, g2)
    \<and> shape out = shape query"
proof -
  from wf have w: "wf_SelfAttention E H (tb_attention tb)" "wf_LayerNorm E (tb_norm1 tb)"
      "wf_LayerNorm E (tb_norm2 tb)" "wf_Linear E (F * E) (fst (tb_feed_forward tb))"
      "wf_Linear (F * E) E (snd (tb_feed_forward tb))" "wf_Dropout (tb_dropout tb)"
    by (simp_all add: wf_TransformerBlock_def)
  from SelfAttention_forward_ok[OF w(1) sh m] obtain attention
    where a: "SelfAttention_forward (tb_attention tb) value key query msk = Inr attention"
      "shape attention = [N, Q, E]" by blast
  from add_ok[OF a(2) sh(3)] obtain s1
    where s1: "add attention query = Inr s1" "shape s1 = [N, Q, E]" by blast
  from LayerNorm_forward_ok[OF w(2), of s1 "[N, Q]"] s1 obtain n1
    where n1: "LayerNorm_forward (tb_norm1 tb) s1 = Inr n1" "shape n1 = [N, Q, E]" by auto
  from Dropout_forward_ok[OF w(6), of rnd n1 g] n1 obtain x g1
    where x: "Dropout_forward (tb_dropout tb) rnd n1 g = Inr (x, g1)" "shape x = [N, Q, E]" by auto
  from Linear_forward_ok[OF w(4), of x "[N, Q]"] x obtain h1
    where h1: "Linear_forward (fst (tb_feed_forward tb)) x = Inr h1" "shape h1 = [N, Q, F * E]"
    by auto
  from Linear_forward_ok[OF w(5), of "ReLU h1" "[N, Q]"] h1 obtain forward
    where f: "Linear_forward (snd (tb_feed_forward tb)) (ReLU h1) = Inr forward"
      "shape forward = [N, Q, E]" by auto
  from add_ok[OF f(2) x(2)] obtain s2
    where s2: "add forward x = Inr s2" "shape s2 = [N, Q, E]" by blast
  from LayerNorm_forward_ok[OF w(3), of s2 "[N, Q]"] s2 obtain n2
    where n2: "LayerNorm_forward (tb_norm2 tb) s2 = Inr n2" "shape n2 = [N, Q, E]" by auto
  from Dropout_forward_ok[OF w(6), of rnd n2 g1] n2 obtain out g2
    where o: "Dropout_forward (tb_dropout tb) rnd n2 g1 = Inr (out, g2)" "shape out = [N, Q, E]"
    by auto
  have "TransformerBlock_forward tb rnd value key query msk g = Inr (out, g2)"
    using a s1 n1 x h1 f s2 n2 o
    by (simp add: TransformerBlock_forward_def Sequential_forward_def)
  with a s1 n1 x h1 f s2 n2 o sh show ?thesis by simp
qed

lemma TransformerBlock_forward_ok:
  assumes "wf_TransformerBlock E H F tb"
    "shape value = [N, L, E]" "shape key = [N, L, E]" "shape query = [N, Q, E]"
    "mask_fits [N, H, Q, L] msk"
  shows "\<exists>out g'. TransformerBlock_forward tb rnd value key query msk g = Inr (out, g')
           \<and> shape out = [N, Q, E]"
  using TransformerBlock_forward_steps[OF assms, of rnd g] assms(4) by auto

lemma DecoderBlock_forward_ok:
  assumes wf: "wf_DecoderBlock E H F db"
    and sh: "shape x = [N, T, E]" "shape value = [N, S, E]" "shape key = [N, S, E]"
    and m: "mask_fits [N, H, T, S] src_mask" "mask_fits [N, H, T, T] trg_mask"
  shows "\<exists>out g'. DecoderBlock_forward db rnd x value key src_mask trg_mask g = Inr (out, g')
           \<and> shape out = [N, T, E]"
proof -
  from wf have w: "wf_LayerNorm E (db_norm db)" "wf_SelfAttention E H (db_attention db)"
      "wf_TransformerBlock E H F (db_transformer_block db)" "wf_Dropout (db_dropout db)"
    by (simp_all add: wf_DecoderBlock_def)
  from SelfAttention_forward_ok[OF w(2) sh(1) sh(1) sh(1) m(2)] obtain attention
    where a: "SelfAttention_forward (db_attention db) x x x trg_mask = Inr attention"
      "shape attention = [N, T, E]" by blast
  from add_ok[OF a(2) sh(1)] obtain s
    where s: "add attention x = Inr s" "shape s = [N, T, E]" by blast
  from LayerNorm_forward_ok[OF w(1), of s "[N, T]"] s obtain n
    where n: "LayerNorm_forward (db_norm db) s = Inr n" "shape n = [N, T, E]" by auto
  from Dropout_forward_ok[OF w(4), of rnd n g] n obtain query g1
    where q: "Dropout_forward (db_dropout db) rnd n g = Inr (query, g1)"
      "shape query = [N, T, E]" by auto
  from TransformerBlock_forward_ok[OF w(3) sh(2) sh(3) q(2) m(1), of rnd g1]
  show ?thesis using a s n q by (simp add: DecoderBlock_forward_def)
qed

lemma Decoder_layers_ok:
  assumes "list_all (wf_DecoderBlock E H F) layers"
    and "shape x = [N, T, E]" "shape enc_out = [N, S, E]"
    and "mask_fits [N, H, T, S] src_mask" "mask_fits [N, H, T, T] trg_mask"
  shows "\<exists>out g'. Decoder_layers layers rnd x enc_out src_mask trg_mask g = Inr (out, g')
           \<and> shape out = [N, T, E]"
  using assms
proof (induction layers arbitrary: x g)
  case Nil
  then show ?case by simp
next
  case (Cons layer layers)
  from Cons.prems(1) have w: "wf_DecoderBlock E H F layer"
    and ws: "list_all (wf_DecoderBlock E H F) layers" by simp_all
  from DecoderBlock_forward_ok[OF w Cons.prems(2) Cons.prems(3) Cons.prems(3) Cons.prems(4,5), of rnd g]
  obtain y g1 where y: "DecoderBlock_forward layer rnd x enc_out enc_out src_mask trg_mask g = Inr (y, g1)"
    "shape y = [N, T, E]" by blast
  from Cons.IH[OF ws y(2) Cons.prems(3,4,5), of g1] y show ?case by simp
qed

lemma indices_valid: "idx \<in> set (indices sh) \<Longrightarrow> valid_index sh idx"
  by (induction sh arbitrary: idx) auto

lemma entry_arange: "t < n \<Longrightarrow> entry (arange n) [t] = int t"
  by (simp add: entry_def arange_def)

lemma positions_ok:
  "\<exists>p. expand (arange T) [N, T] = Inr p \<and> shape p = [N, T]
       \<and> list_all (\<lambda>t. 0 \<le> t \<and> t < int T) (data p)"
proof -
  have "0 \<le> entry (arange T) (bidx [T] idx) \<and> entry (arange T) (bidx [T] idx) < int T"
    if "idx \<in> set (indices [N, T])" for idx
  proof -
    from indices_valid[OF that] obtain n t where "idx = [n, t]" "t < T"
      by (auto simp: valid_index_Cons)
    then show ?thesis by (simp add: bidx_def entry_arange)
  qed
  then show ?thesis
    by (simp add: expand_def arange_def[THEN arg_cong, of shape] tabulate_def list_all_iff
        del: indices.simps)
qed

lemma Embedding_forward_ok:
  assumes "wf_Embedding num e emb" "list_all (\<lambda>t. 0 \<le> t \<and> t < int num) (data x)"
  shows "\<exists>y. Embedding_forward emb x = Inr y \<and> shape y = shape x @ [e]"
  using assms by (simp add: Embedding_forward_def wf_Embedding_def)

lemma embed_tokens_ok:
  assumes we: "wf_Embedding V E word_embedding" and pe: "wf_Embedding M E position_embedding"
    and x: "shape x = [N, T]" "wf_tokens V x" and len: "T \<le> M"
  shows "\<exists>y. embed_tokens word_embedding position_embedding x = Inr y \<and> shape y = [N, T, E]"
proof -
  from positions_ok[of T N] obtain p where p: "expand (arange T) [N, T] = Inr p"
    "shape p = [N, T]" "list_all (\<lambda>t. 0 \<le> t \<and> t < int T) (data p)" by blast
  from p(3) len have "list_all (\<lambda>t. 0 \<le> t \<and> t < int M) (data p)"
    by (auto simp: list_all_iff)
  from Embedding_forward_ok[OF pe this] p(2) obtain b
    where b: "Embedding_forward position_embedding p = Inr b" "shape b = [N, T, E]" by auto
  from x(2) have "list_all (\<lambda>t. 0 \<le> t \<and> t < int V) (data x)" by (simp add: wf_tokens_def)
  from Embedding_forward_ok[OF we this] x(1) obtain a
    where a: "Embedding_forward word_embedding x = Inr a" "shape a = [N, T, E]" by auto
  from add_ok[OF a(2) b(2)] a b p x show ?thesis
    by (simp add: embed_tokens_def shape2_def)
qed

lemma Decoder_hidden_ok:
  assumes wf: "wf_Decoder E H F V M dec"
    and x: "shape x = [N, T]" "wf_tokens V x" "T \<le> M"
    and enc: "shape enc_out = [N, S, E]"
    and m: "mask_fits [N, H, T, S] src_mask" "mask_fits [N, H, T, T] trg_mask"
  shows "\<exists>h g'. Decoder_hidden dec rnd x enc_out src_mask trg_mask g = Inr (h, g')
           \<and> shape h = [N, T, E]"
proof -
  from wf have w: "wf_Embedding V E (dec_word_embedding dec)"
      "wf_Embedding M E (dec_position_embedding dec)"
      "list_all (wf_DecoderBlock E H F) (dec_layers dec)" "wf_Dropout (dec_dropout dec)"
    by (simp_all add: wf_Decoder_def)
  from embed_tokens_ok[OF w(1,2) x] obtain e
    where e: "embed_tokens (dec_word_embedding dec) (dec_position_embedding dec) x = Inr e"
      "shape e = [N, T, E]" by blast
  from Dropout_forward_ok[OF w(4), of rnd e g] e obtain y g1
    where y: "Dropout_forward (dec_dropout dec) rnd e g = Inr (y, g1)" "shape y = [N, T, E]"
    by auto
  from Decoder_layers_ok[OF w(3) y(2) enc m, of rnd g1] e y show ?thesis
    by (simp add: Decoder_hidden_def)
qed

lemma Linear_forward_entry:
  assumes wf: "wf_Linear inp out l" and sh: "shape x = [N, T, inp]"
    and v: "n < N" "t < T" "c < out"
  shows "\<exists>y. Linear_forward l x = Inr y \<and> shape y = [N, T, out]
           \<and> entry y [n, t, c]
               = (\<Sum>k<inp. entry x [n, t, k] * entry (lin_weight l) [c, k]) + entry (lin_bias l) [c]"
  using assms
  by (simp add: Linear_forward_def wf_Linear_def entry_tabulate sum_list_upt)

section \<open>Forward passes without dropout\<close>

lemma Dropout_forward_zero: "drop_p d = 0 \<Longrightarrow> Dropout_forward d rnd x g = Inr (x, g)"
  by (simp add: Dropout_forward_def)

lemma rewind_simps [simp]:
  "rewind g (Inr (y, g')) = Inr (y, g)"
  "rewind g (Inl e) = Inl e"
  by (simp_all add: rewind_def)

lemma rewind_bindE: "rewind g (bindE m f) = bindE m (\<lambda>x. rewind g (f x))"
  by (cases m) simp_all

lemma bindE_rewind: "bindE (rewind g m) f = bindE m (\<lambda>(y, g'). f (y, g))"
  by (cases m) auto

lemma map_sum_rewind: "map_sum id fst (rewind g r) = map_sum id fst r"
  by (cases r) auto

lemma bindE_cong_ext: "(\<And>x. f x = h x) \<Longrightarrow> bindE m f = bindE m h"
  by (cases m) simp_all

lemma TransformerBlock_forward_det:
  assumes "no_dropout_tb tb"
  shows "TransformerBlock_forward tb rnd value key query msk g
         = rewind g (TransformerBlock_forward tb rnd' value key query msk g')"
  using assms
  by (simp add: TransformerBlock_forward_def no_dropout_tb_def Dropout_forward_zero rewind_bindE)

lemma Encoder_layers_det:
  assumes "list_all no_dropout_tb layers"
  shows "Encoder_layers layers rnd out msk g = rewind g (Encoder_layers layers rnd' out msk g')"
  using assms
proof (induction layers arbitrary: out g g')
  case Nil
  then show ?case by simp
next
  case (Cons layer layers)
  then have l: "no_dropout_tb layer" and ls: "list_all no_dropout_tb layers" by simp_all
  have "Encoder_layers (layer # layers) rnd out msk g
        = bindE (rewind g (TransformerBlock_forward layer rnd' out out out msk g'))
            (\<lambda>(out, g). Encoder_layers layers rnd out msk g)"
    by (simp add: TransformerBlock_forward_det[OF l, of rnd _ _ _ _ g rnd' g'])
  also have "\<dots> = bindE (TransformerBlock_forward layer rnd' out out out msk g')
            (\<lambda>(out, g1). Encoder_layers layers rnd out msk g)"
    by (simp add: bindE_rewind)
  also have "\<dots> = bindE (TransformerBlock_forward layer rnd' out out out msk g')
            (\<lambda>(out, g1). rewind g (Encoder_layers layers rnd' out msk g1))"
    by (rule bindE_cong_ext) (simp add: split_def Cons.IH[OF ls])
  also have "\<dots> = rewind g (Encoder_layers (layer # layers) rnd' out msk g')"
    by (simp add: rewind_bindE split_def)
  finally show ?case .
qed

lemma Encoder_forward_det:
  assumes "drop_p (enc_dropout enc) = 0" "list_all no_dropout_tb (enc_layers enc)"
  shows "Encoder_forward enc rnd x msk g = rewind g (Encoder_forward enc rnd' x msk g')"
proof -
  have "Encoder_forward enc rnd x msk g
        = bindE (embed_tokens (enc_word_embedding enc) (enc_position_embedding enc) x)
            (\<lambda>e. Encoder_layers (enc_layers enc) rnd e msk g)"
    by (simp add: Encoder_forward_def Dropout_forward_zero[OF assms(1)])
  also have "\<dots> = bindE (embed_tokens (enc_word_embedding enc) (enc_position_embedding enc) x)
            (\<lambda>e. rewind g (Encoder_layers (enc_layers enc) rnd' e msk g'))"
    by (rule bindE_cong_ext) (rule Encoder_layers_det[OF assms(2)])
  also have "\<dots> = rewind g (Encoder_forward enc rnd' x msk g')"
    by (simp add: Encoder_forward_def Dropout_forward_zero[OF assms(1)] rewind_bindE)
  finally show ?thesis .
qed

lemma DecoderBlock_forward_det:
  assumes "no_dropout_db db"
  shows "DecoderBlock_forward db rnd x value key src_mask trg_mask g
         = rewind g (DecoderBlock_forward db rnd' x value key src_mask trg_mask g')"
proof -
  from assms have d: "drop_p (db_dropout db) = 0" and t: "no_dropout_tb (db_transformer_block db)"
    by (simp_all add: no_dropout_db_def)
  show ?thesis
    unfolding DecoderBlock_forward_def rewind_bindE Dropout_forward_zero[OF d] bindE_Inr prod.case
    by (intro bindE_cong_ext) (rule TransformerBlock_forward_det[OF t])
qed

lemma Decoder_layers_det:
  assumes "list_all no_dropout_db layers"
  shows "Decoder_layers layers rnd x enc_out src_mask trg_mask g
         = rewind g (Decoder_layers layers rnd' x enc_out src_mask trg_mask g')"
  using assms
proof (induction layers arbitrary: x g g')
  case Nil
  then show ?case by simp
next
  case (Cons layer layers)
  then have l: "no_dropout_db layer" and ls: "list_all no_dropout_db layers" by simp_all
  let ?step = "DecoderBlock_forward layer rnd' x enc_out enc_out src_mask trg_mask g'"
  have "Decoder_layers (layer # layers) rnd x enc_out src_mask trg_mask g
        = bindE (rewind g ?step)
            (\<lambda>(x, g). Decoder_layers layers rnd x enc_out src_mask trg_mask g)"
    by (simp add: DecoderBlock_forward_det[OF l, of rnd _ _ _ _ _ g rnd' g'])
  also have "\<dots> = bindE ?step
            (\<lambda>(x, g1). Decoder_layers layers rnd x enc_out src_mask trg_mask g)"
    by (simp add: bindE_rewind)
  also have "\<dots> = bindE ?step
            (\<lambda>(x, g1). rewind g (Decoder_layers layers rnd' x enc_out src_mask trg_mask g1))"
    by (rule bindE_cong_ext) (simp add: split_def Cons.IH[OF ls])
  also have "\<dots> = rewind g (Decoder_layers (layer # layers) rnd' x enc_out src_mask trg_mask g')"
    by (simp add: rewind_bindE split_def)
  finally show ?case .
qed

lemma Decoder_forward_det:
  assumes "drop_p (dec_dropout dec) = 0" "list_all no_dropout_db (dec_layers dec)"
  shows "Decoder_forward dec rnd x enc_out src_mask trg_mask g
         = rewind g (Decoder_forward dec rnd' x enc_out src_mask trg_mask g')"
proof -
  let ?emb = "embed_tokens (dec_word_embedding dec) (dec_position_embedding dec) x"
  have h: "Decoder_hidden dec r x enc_out src_mask trg_mask k
        = bindE ?emb (\<lambda>e. Decoder_layers (dec_layers dec) r e enc_out src_mask trg_mask k)" for r k
    by (simp add: Decoder_hidden_def Dropout_forward_zero[OF assms(1)])
  have "Decoder_hidden dec rnd x enc_out src_mask trg_mask g
        = rewind g (Decoder_hidden dec rnd' x enc_out src_mask trg_mask g')"
    unfolding h rewind_bindE
    by (rule bindE_cong_ext) (rule Decoder_layers_det[OF assms(2)])
  then show ?thesis
    by (cases "Decoder_hidden dec rnd' x enc_out src_mask trg_mask g'")
       (auto simp: Decoder_forward_def rewind_bindE bindE_def split: sum.splits)
qed

lemma Transformer_forward_det:
  assumes "no_dropout tr"
  shows "Transformer_forward tr rnd src trg g = rewind g (Transformer_forward tr rnd' src trg g')"
proof -
  from assms have e: "drop_p (enc_dropout (tr_encoder tr)) = 0"
      "list_all no_dropout_tb (enc_layers (tr_encoder tr))"
    and d: "drop_p (dec_dropout (tr_decoder tr)) = 0"
      "list_all no_dropout_db (dec_layers (tr_decoder tr))"
    by (simp_all add: no_dropout_def)
  have "bindE (Encoder_forward (tr_encoder tr) rnd src sm g)
          (\<lambda>(enc_src, g). Decoder_forward (tr_decoder tr) rnd trg enc_src sm' tm g)
        = rewind g (bindE (Encoder_forward (tr_encoder tr) rnd' src sm g')
          (\<lambda>(enc_src, g). Decoder_forward (tr_decoder tr) rnd' trg enc_src sm' tm g))"
    for sm sm' tm
  proof -
    have "bindE (Encoder_forward (tr_encoder tr) rnd src sm g)
          (\<lambda>(enc_src, g). Decoder_forward (tr_decoder tr) rnd trg enc_src sm' tm g)
        = bindE (Encoder_forward (tr_encoder tr) rnd' src sm g')
          (\<lambda>(enc_src, g1). Decoder_forward (tr_decoder tr) rnd trg enc_src sm' tm g)"
      by (simp add: Encoder_forward_det[OF e, of rnd _ _ g rnd' g'] bindE_rewind)
    also have "\<dots> = bindE (Encoder_forward (tr_encoder tr) rnd' src sm g')
          (\<lambda>(enc_src, g1). rewind g (Decoder_forward (tr_decoder tr) rnd' trg enc_src sm' tm g1))"
      by (rule bindE_cong_ext) (simp add: split_def Decoder_forward_det[OF d, of rnd _ _ _ _ g rnd'])
    finally show ?thesis by (simp add: rewind_bindE split_def)
  qed
  then show ?thesis
    unfolding Transformer_forward_def rewind_bindE
    by (intro bindE_cong_ext)
qed

section \<open>Constructors\<close>

lemma div_mult_eq_iff_mod: "(a div b * b = a) = (a mod b = 0)" for a b :: int
  using minus_div_mult_eq_mod[of a b] by auto

lemma SelfAttention_init_not_divisible:
  assumes "heads \<noteq> 0" "embed_size mod heads \<noteq> 0"
  shows "SelfAttention_init gen embed_size heads g
         = (Inl (AssertionError ''Embedding size needs to be divisible by heads''), g)"
  using assms by (simp add: SelfAttention_init_def div_mult_eq_iff_mod)

lemma nn_Linear_ok:
  "0 \<le> i \<Longrightarrow> 0 \<le> out \<Longrightarrow>
   \<exists>l. nn_Linear gen i out g = (Inr l, g + nat out * nat i + nat out) \<and> wf_Linear (nat i) (nat out) l"
  by (simp add: nn_Linear_def wf_Linear_def Let_def)

lemma SelfAttention_init_ok:
  assumes h: "0 < heads" and e: "0 \<le> embed_size" and d: "embed_size mod heads = 0"
  shows "\<exists>sa. SelfAttention_init gen embed_size heads g
               = (Inr sa, g + 4 * (nat embed_size * nat embed_size + nat embed_size))
             \<and> wf_SelfAttention (nat embed_size) (nat heads) sa"
proof -
  let ?E = "nat embed_size" and ?H = "nat heads"
  from nn_Linear_ok[OF e e] obtain l1 where l1:
    "nn_Linear gen embed_size embed_size g = (Inr l1, g + ?E * ?E + ?E)" "wf_Linear ?E ?E l1"
    by blast
  from nn_Linear_ok[OF e e] obtain l2 where l2:
    "nn_Linear gen embed_size embed_size (g + ?E * ?E + ?E) = (Inr l2, g + ?E * ?E + ?E + ?E * ?E + ?E)"
    "wf_Linear ?E ?E l2" by blast
  from nn_Linear_ok[OF e e] obtain l3 where l3:
    "nn_Linear gen embed_size embed_size (g + ?E * ?E + ?E + ?E * ?E + ?E)
     = (Inr l3, g + ?E * ?E + ?E + ?E * ?E + ?E + ?E * ?E + ?E)"
    "wf_Linear ?E ?E l3" by blast
  from nn_Linear_ok[OF e e] obtain l4 where l4:
    "nn_Linear gen embed_size embed_size (g + ?E * ?E + ?E + ?E * ?E + ?E + ?E * ?E + ?E)
     = (Inr l4, g + ?E * ?E + ?E + ?E * ?E + ?E + ?E * ?E + ?E + ?E * ?E + ?E)"
    "wf_Linear ?E ?E l4" by blast
  have dv: "embed_size div heads * heads = embed_size" using d by (simp add: div_mult_eq_iff_mod)
  have hd: "embed_size div heads = int (?E div ?H)"
    using h e by (simp add: zdiv_int)
  have "int (?E div ?H * ?H) = int ?E"
    using dv h e unfolding hd[symmetric] of_nat_mult by simp
  then have nd: "?E div ?H * ?H = ?E" by (simp only: of_nat_eq_iff)
  show ?thesis
    using h e l1 l2 l3 l4 dv nd
    by (simp add: SelfAttention_init_def wf_SelfAttention_def hd[symmetric])
qed

lemma nn_Embedding_ok:
  "0 \<le> n \<Longrightarrow> 0 \<le> d \<Longrightarrow>
   \<exists>emb. nn_Embedding gen n d g = (Inr emb, g + nat n * nat d) \<and> wf_Embedding (nat n) (nat d) emb"
  by (simp add: nn_Embedding_def wf_Embedding_def Let_def)

lemma Transformer_init_not_divisible:
  assumes "heads \<noteq> 0" "embed_size mod heads \<noteq> 0" "0 < num_layers"
    and "0 \<le> src_vocab_size" "0 \<le> embed_size" "0 \<le> max_length"
  shows "Transformer_init gen src_vocab_size trg_vocab_size src_pad_idx trg_pad_idx embed_size
           num_layers forward_expansion heads dropout max_length g
         = (Inl (AssertionError ''Embedding size needs to be divisible by heads''),
            g + nat src_vocab_size * nat embed_size + nat max_length * nat embed_size)"
proof -
  from assms(3) obtain n where n: "nat num_layers = Suc n"
    by (cases "nat num_layers") auto
  from nn_Embedding_ok[OF assms(4,5)] obtain w where w:
    "nn_Embedding gen src_vocab_size embed_size g = (Inr w, g + nat src_vocab_size * nat embed_size)"
    by blast
  from nn_Embedding_ok[OF assms(6,5)] obtain p where p:
    "nn_Embedding gen max_length embed_size (g + nat src_vocab_size * nat embed_size)
     = (Inr p, g + nat src_vocab_size * nat embed_size + nat max_length * nat embed_size)"
    by blast
  show ?thesis
    by (simp add: Transformer_init_def Encoder_init_def w p n TransformerBlock_init_def
        SelfAttention_init_not_divisible[OF assms(1,2)])
qed

text \<open>
  A construction with sizes that are not negative, \<^verbatim>\<open>heads > 0\<close> dividing
  \<^verbatim>\<open>embed_size\<close> and a dropout probability in \<open>[0, 1]\<close> succeeds, gives well-shaped
  modules with \<^verbatim>\<open>num_layers\<close> layers in each stack, and with \<^verbatim>\<open>dropout=0\<close> a model
  without dropout.
\<close>

lemma nn_LayerNorm_ok:
  "0 \<le> e \<Longrightarrow> \<exists>ly. nn_LayerNorm e g = (Inr ly, g + 2 * nat e) \<and> wf_LayerNorm (nat e) ly"
  by (simp add: nn_LayerNorm_def wf_LayerNorm_def Let_def)

lemma nn_Dropout_ok:
  "0 \<le> p \<Longrightarrow> p \<le> 1 \<Longrightarrow> \<exists>d. nn_Dropout p = Inr d \<and> wf_Dropout d \<and> drop_p d = p"
  by (simp add: nn_Dropout_def wf_Dropout_def)

lemma make_layers_ok:
  assumes "\<And>g. \<exists>l g'. mk g = (Inr l, g') \<and> P l"
  shows "\<exists>ls g'. make_layers mk n g = (Inr ls, g') \<and> length ls = n \<and> list_all P ls"
proof (induction n arbitrary: g)
  case 0
  then show ?case by simp
next
  case (Suc n)
  from assms[of g] obtain l g1 where l: "mk g = (Inr l, g1)" "P l" by blast
  from Suc[of g1] obtain ls g2 where ls: "make_layers mk n g1 = (Inr ls, g2)" "length ls = n"
    "list_all P ls" by blast
  from l ls show ?case by simp
qed

lemma TransformerBlock_init_ok:
  assumes h: "0 < heads" and e: "0 \<le> embed_size" and d: "embed_size mod heads = 0"
    and f: "0 \<le> forward_expansion" and p: "0 \<le> dropout" "dropout \<le> 1"
  shows "\<exists>tb g'. TransformerBlock_init gen embed_size heads dropout forward_expansion g = (Inr tb, g')
           \<and> wf_TransformerBlock (nat embed_size) (nat heads) (nat forward_expansion) tb
           \<and> drop_p (tb_dropout tb) = dropout"
proof -
  from SelfAttention_init_ok[OF h e d, of gen g] obtain sa g1
    where sa: "SelfAttention_init gen embed_size heads g = (Inr sa, g1)"
      "wf_SelfAttention (nat embed_size) (nat heads) sa" by blast
  from nn_LayerNorm_ok[OF e, of g1] obtain n1 g2
    where n1: "nn_LayerNorm embed_size g1 = (Inr n1, g2)" "wf_LayerNorm (nat embed_size) n1"
    by blast
  from nn_LayerNorm_ok[OF e, of g2] obtain n2 g3
    where n2: "nn_LayerNorm embed_size g2 = (Inr n2, g3)" "wf_LayerNorm (nat embed_size) n2"
    by blast
  have fe: "0 \<le> forward_expansion * embed_size" using f e by simp
  have nfe: "nat (forward_expansion * embed_size) = nat forward_expansion * nat embed_size"
    using f by (simp add: nat_mult_distrib)
  from nn_Linear_ok[OF e fe, of gen g3] obtain l1 g4
    where l1: "nn_Linear gen embed_size (forward_expansion * embed_size) g3 = (Inr l1, g4)"
      "wf_Linear (nat embed_size) (nat forward_expansion * nat embed_size) l1"
    by (auto simp: nfe)
  from nn_Linear_ok[OF fe e, of gen g4] obtain l2 g5
    where l2: "nn_Linear gen (forward_expansion * embed_size) embed_size g4 = (Inr l2, g5)"
      "wf_Linear (nat forward_expansion * nat embed_size) (nat embed_size) l2"
    by (auto simp: nfe)
  from nn_Dropout_ok[OF p] obtain dr
    where dr: "nn_Dropout dropout = Inr dr" "wf_Dropout dr" "drop_p dr = dropout" by blast
  show ?thesis
    using sa n1 n2 l1 l2 dr
    by (simp add: TransformerBlock_init_def wf_TransformerBlock_def)
qed

lemma DecoderBlock_init_ok:
  assumes h: "0 < heads" and e: "0 \<le> embed_size" and d: "embed_size mod heads = 0"
    and f: "0 \<le> forward_expansion" and p: "0 \<le> dropout" "dropout \<le> 1"
  shows "\<exists>db g'. DecoderBlock_init gen embed_size heads forward_expansion dropout g = (Inr db, g')
           \<and> wf_DecoderBlock (nat embed_size) (nat heads) (nat forward_expansion) db
           \<and> drop_p (db_dropout db) = dropout
           \<and> drop_p (tb_dropout (db_transformer_block db)) = dropout"
proof -
  from nn_LayerNorm_ok[OF e, of g] obtain n0 g1
    where n0: "nn_LayerNorm embed_size g = (Inr n0, g1)" "wf_LayerNorm (nat embed_size) n0"
    by blast
  from SelfAttention_init_ok[OF h e d, of gen g1] obtain sa g2
    where sa: "SelfAttention_init gen embed_size heads g1 = (Inr sa, g2)"
      "wf_SelfAttention (nat embed_size) (nat heads) sa" by blast
  from TransformerBlock_init_ok[OF h e d f p, of gen g2] obtain tb g3
    where tb: "TransformerBlock_init gen embed_size heads dropout forward_expansion g2 = (Inr tb, g3)"
      "wf_TransformerBlock (nat embed_size) (nat heads) (nat forward_expansion) tb"
      "drop_p (tb_dropout tb) = dropout" by blast
  from nn_Dropout_ok[OF p] obtain dr
    where dr: "nn_Dropout dropout = Inr dr" "wf_Dropout dr" "drop_p dr = dropout" by blast
  show ?thesis
    using n0 sa tb dr by (simp add: DecoderBlock_init_def wf_DecoderBlock_def)
qed

lemma Transformer_init_ok:
  assumes h: "0 < heads" and e: "0 \<le> embed_size" and d: "embed_size mod heads = 0"
    and f: "0 \<le> forward_expansion" and p: "0 \<le> dropout" "dropout \<le> 1"
    and sz: "0 \<le> src_vocab_size" "0 \<le> trg_vocab_size" "0 \<le> max_length"
  shows "\<exists>tr g'. Transformer_init gen src_vocab_size trg_vocab_size src_pad_idx trg_pad_idx
             embed_size num_layers forward_expansion heads dropout max_length g = (Inr tr, g')
           \<and> wf_Decoder (nat embed_size) (nat heads) (nat forward_expansion)
                (nat trg_vocab_size) (nat max_length) (tr_decoder tr)
           \<and> length (enc_layers (tr_encoder tr)) = nat num_layers
           \<and> length (dec_layers (tr_decoder tr)) = nat num_layers
           \<and> (dropout = 0 \<longrightarrow> no_dropout tr)"
proof -
  let ?E = "nat embed_size" and ?H = "nat heads" and ?F = "nat forward_expansion"
  from nn_Embedding_ok[OF sz(1) e, of gen g] obtain we g1
    where we: "nn_Embedding gen src_vocab_size embed_size g = (Inr we, g1)" by blast
  from nn_Embedding_ok[OF sz(3) e, of gen g1] obtain pe g2
    where pe: "nn_Embedding gen max_length embed_size g1 = (Inr pe, g2)" by blast
  from make_layers_ok[of "TransformerBlock_init gen embed_size heads dropout forward_expansion"
      "\<lambda>tb. drop_p (tb_dropout tb) = dropout" "nat num_layers" g2]
    TransformerBlock_init_ok[OF h e d f p, of gen]
  obtain els g3
    where els: "make_layers (TransformerBlock_init gen embed_size heads dropout forward_expansion)
        (nat num_layers) g2 = (Inr els, g3)" "length els = nat num_layers"
      "list_all (\<lambda>tb. drop_p (tb_dropout tb) = dropout) els"
    by blast
  from nn_Dropout_ok[OF p] obtain dr
    where dr: "nn_Dropout dropout = Inr dr" "wf_Dropout dr" "drop_p dr = dropout" by blast
  from nn_Embedding_ok[OF sz(2) e, of gen g3] obtain dwe g4
    where dwe: "nn_Embedding gen trg_vocab_size embed_size g3 = (Inr dwe, g4)"
      "wf_Embedding (nat trg_vocab_size) ?E dwe" by blast
  from nn_Embedding_ok[OF sz(3) e, of gen g4] obtain dpe g5
    where dpe: "nn_Embedding gen max_length embed_size g4 = (Inr dpe, g5)"
      "wf_Embedding (nat max_length) ?E dpe" by blast
  from make_layers_ok[of "DecoderBlock_init gen embed_size heads forward_expansion dropout"
      "\<lambda>db. wf_DecoderBlock ?E ?H ?F db \<and> drop_p (db_dropout db) = dropout
            \<and> drop_p (tb_dropout (db_transformer_block db)) = dropout" "nat num_layers" g5]
    DecoderBlock_init_ok[OF h e d f p, of gen]
  obtain dls g6
    where dls: "make_layers (DecoderBlock_init gen embed_size heads forward_expansion dropout)
        (nat num_layers) g5 = (Inr dls, g6)" "length dls = nat num_layers"
      "list_all (\<lambda>db. wf_DecoderBlock ?E ?H ?F db \<and> drop_p (db_dropout db) = dropout
            \<and> drop_p (tb_dropout (db_transformer_block db)) = dropout) dls"
    by blast
  from nn_Linear_ok[OF e sz(2), of gen g6] obtain fc g7
    where fc: "nn_Linear gen embed_size trg_vocab_size g6 = (Inr fc, g7)"
      "wf_Linear ?E (nat trg_vocab_size) fc" by blast
  from dls(3) have w: "list_all (wf_DecoderBlock ?E ?H ?F) dls"
    and nd: "dropout = 0 \<longrightarrow> list_all no_dropout_db dls"
    by (auto simp: list_all_iff no_dropout_db_def no_dropout_tb_def)
  from els(3) have ne: "dropout = 0 \<longrightarrow> list_all no_dropout_tb els"
    by (auto simp: list_all_iff no_dropout_tb_def)
  show ?thesis
    using we pe els(1,2) dr dwe dpe dls(1,2) fc w nd ne
    by (simp add: Transformer_init_def Encoder_init_def Decoder_init_def wf_Decoder_def
        no_dropout_def)
qed

section \<open>The small model is well-shaped\<close>

lemma wf_duo_sa: "wf_SelfAttention 2 2 duo_sa"
  by (simp add: wf_SelfAttention_def duo_sa_def eye2_def wf_Linear_def)

lemma wf_tiny_sa: "wf_SelfAttention 1 1 tiny_sa"
  by (simp add: wf_SelfAttention_def tiny_sa_def lin11_def wf_Linear_def)

lemma wf_tiny_block: "wf_TransformerBlock 1 1 1 tiny_block"
  using wf_tiny_sa
  by (simp add: wf_TransformerBlock_def tiny_block_def tiny_norm_def wf_LayerNorm_def
      lin11_def wf_Linear_def tiny_dropout_def wf_Dropout_def)

lemma wf_tiny_decoder: "wf_Decoder 1 1 1 2 2 tiny_decoder"
  using wf_tiny_sa wf_tiny_block
  by (simp add: wf_Decoder_def tiny_decoder_def tiny_embedding_def wf_Embedding_def
      tiny_decoder_block_def wf_DecoderBlock_def tiny_norm_def wf_LayerNorm_def
      wf_Linear_def tiny_dropout_def wf_Dropout_def)

lemma no_dropout_tiny: "no_dropout tiny_transformer"
  by (simp add: no_dropout_def tiny_transformer_def tiny_encoder_def tiny_decoder_def
      tiny_block_def tiny_decoder_block_def tiny_dropout_def no_dropout_tb_def no_dropout_db_def)

section \<open>Claims\<close>

text \<open>
  C1. With a mask supplied, \<^verbatim>\<open>forward\<close> replaces the energy at every index
  \<open>[n, h, i, j]\<close> where the broadcast mask is 0 by the sentinel \<open>-1e20\<close> before the
  softmax, and leaves the energy \<open>e0\<close> of an unmasked key \<open>u\<close> as it is. If the row
  of query \<open>i\<close> and head \<open>h\<close> has such an unmasked key, the probability of the masked
  key \<open>j\<close> is at most \<open>exp ((-1e20 - e0[n, h, i, u]) / sqrt embed_size)\<close>: it is
  negligible as long as the unmasked energy stays far above the sentinel. A row whose
  keys are all masked has no such bound.
\<close>

theorem SelfAttention_mask_sentinel:
  assumes "wf_SelfAttention E H sa" and "0 < E"
    and "shape values = [N, L, E]" "shape keys = [N, L, E]" "shape query = [N, Q, E]"
    and "broadcast_shapes [N, H, Q, L] (mask_shape m) = Inr [N, H, Q, L]"
    and "n < N" "h < H" "i < Q" "j < L" "u < L"
    and "mask_at m [n, h, i, j] = 0"
  shows "\<exists>v k q e0 energy attention.
      SelfAttention_heads sa values keys query = Inr (N, Q, v, k, q)
    \<and> einsum_nqhd_nkhd_nhqk q k = Inr e0
    \<and> SelfAttention_energy q k (Some m) = Inr energy
    \<and> entry energy [n, h, i, j] = - (10 ^ 20)
    \<and> SelfAttention_attention sa values keys query (Some m) = Inr attention
    \<and> (mask_at m [n, h, i, u] \<noteq> 0 \<longrightarrow>
         entry energy [n, h, i, u] = entry e0 [n, h, i, u]
         \<and> entry attention [n, h, i, j]
             \<le> exp ((- (10 ^ 20) - entry e0 [n, h, i, u]) / sqrt (real E)))"
  using assms by (rule SelfAttention_attention_masked)

text \<open>
  The theorem on the small mixer, two keys, the second one masked as a padding token is.
\<close>

theorem SelfAttention_mask_sentinel_witness:
  "wf_SelfAttention 1 1 tiny_sa \<and> (0::nat) < 1
   \<and> shape (Tensor [1, 2, 1] [1, 2 :: real]) = [1, 2, 1]
   \<and> broadcast_shapes [1, 1, 2, 2] (mask_shape (BoolMask (Tensor [1, 1, 1, 2] [True, False])))
       = Inr [1, 1, 2, 2]
   \<and> mask_at (BoolMask (Tensor [1, 1, 1, 2] [True, False])) [0, 0, 0, 1] = 0
   \<and> mask_at (BoolMask (Tensor [1, 1, 1, 2] [True, False])) [0, 0, 0, 0] \<noteq> 0
   \<and> (\<exists>v k q e0 energy attention.
        SelfAttention_heads tiny_sa (Tensor [1, 2, 1] [1, 2]) (Tensor [1, 2, 1] [1, 2])
          (Tensor [1, 2, 1] [1, 2]) = Inr (1, 2, v, k, q)
      \<and> einsum_nqhd_nkhd_nhqk q k = Inr e0
      \<and> SelfAttention_energy q k (Some (BoolMask (Tensor [1, 1, 1, 2] [True, False]))) = Inr energy
      \<and> entry energy [0, 0, 0, 1] = - (10 ^ 20)
      \<and> SelfAttention_attention tiny_sa (Tensor [1, 2, 1] [1, 2]) (Tensor [1, 2, 1] [1, 2])
          (Tensor [1, 2, 1] [1, 2]) (Some (BoolMask (Tensor [1, 1, 1, 2] [True, False])))
          = Inr attention
      \<and> entry energy [0, 0, 0, 0] = entry e0 [0, 0, 0, 0]
      \<and> entry attention [0, 0, 0, 1] \<le> exp ((- (10 ^ 20) - entry e0 [0, 0, 0, 0]) / sqrt 1))"
proof -
  let ?m = "BoolMask (Tensor [1, 1, 1, 2] [True, False])"
  have b: "broadcast_shapes [1, 1, 2, 2] (mask_shape ?m) = Inr [1, 1, 2, 2]"
    by (simp add: mask_shape_def broadcast_shapes_def)
  have m1: "mask_at ?m [0, 0, 0, 1] = 0" and m0: "mask_at ?m [0, 0, 0, 0] \<noteq> 0"
    by (simp_all add: mask_at_def bidx_def entry_def)
  show ?thesis
    using SelfAttention_mask_sentinel[of 1 1 tiny_sa "Tensor [1, 2, 1] [1, 2]" 1 2
        "Tensor [1, 2, 1] [1, 2]" "Tensor [1, 2, 1] [1, 2]" 2 ?m 0 0 0 1 0]
      wf_tiny_sa b m1 m0
    by simp
qed

text \<open>
  Where every key of a row is masked the masked keys share the whole probability: a
  source of one padding token gives the mask \<open>[[[[False]]]]\<close>, the only energy becomes
  the sentinel, and the softmax gives the masked key the probability 1.
\<close>

theorem SelfAttention_all_masked_counterexample:
  "make_src_mask tiny_transformer (Tensor [1, 1] [0])
     = Inr (BoolMask (Tensor [1, 1, 1, 1] [False]))
   \<and> mask_at (BoolMask (Tensor [1, 1, 1, 1] [False])) [0, 0, 0, 0] = 0
   \<and> SelfAttention_attention tiny_sa (Tensor [1, 1, 1] [1]) (Tensor [1, 1, 1] [1])
       (Tensor [1, 1, 1] [1]) (Some (BoolMask (Tensor [1, 1, 1, 1] [False])))
     = Inr (Tensor [1, 1, 1, 1] [1])
   \<and> entry (Tensor [1, 1, 1, 1] [1 :: real]) [0, 0, 0, 0] = 1"
proof -
  have "make_src_mask tiny_transformer (Tensor [1, 1] [0])
        = Inr (BoolMask (Tensor [1, 1, 1, 1] [False]))"
    by (simp add: make_src_mask_def tiny_transformer_def unsqueeze_def tabulate_def entry_def)
  moreover have "mask_at (BoolMask (Tensor [1, 1, 1, 1] [False])) [0, 0, 0, 0] = 0"
    by (simp add: mask_at_def bidx_def entry_def)
  moreover have "SelfAttention_attention tiny_sa (Tensor [1, 1, 1] [1]) (Tensor [1, 1, 1] [1])
       (Tensor [1, 1, 1] [1]) (Some (BoolMask (Tensor [1, 1, 1, 1] [False])))
     = Inr (Tensor [1, 1, 1, 1] [1])"
    by (simp add: SelfAttention_attention_def SelfAttention_heads_def tiny_sa_def lin11_def
        Linear_forward_def reshape_def SelfAttention_energy_def einsum_nqhd_nkhd_nhqk_def
        masked_fill_def binop_def broadcast_shapes_def mask_eq_zero_def SelfAttention_softmax_def
        softmax_def div_scalar_def tabulate_def entry_def bidx_def bi_def)
  moreover have "entry (Tensor [1, 1, 1, 1] [1 :: real]) [0, 0, 0, 0] = 1"
    by (simp add: entry_def)
  ultimately show ?thesis by blast
qed

text \<open>
  C2. For a well-shaped input, the \<^verbatim>\<open>attention\<close> of \<^verbatim>\<open>forward\<close> is the softmax over
  the key axis (the last axis of the energy of shape \<open>[N, H, Q, L]\<close>) of the energy
  divided by \<open>sqrt embed_size\<close>: the entry at \<open>[n, h, i, j]\<close> is
  \<open>exp (energy[n, h, i, j] / sqrt E)\<close> over the sum of \<open>exp (energy[n, h, i, c] / sqrt E)\<close>
  for the keys \<open>c < L\<close>. The divisor is taken from \<^verbatim>\<open>embed_size\<close>, which with more
  than one head is larger than the root of \<^verbatim>\<open>head_dim\<close>.
\<close>

theorem SelfAttention_softmax_scaling:
  assumes wf: "wf_SelfAttention E H sa" and E: "0 < E"
    and sh: "shape values = [N, L, E]" "shape keys = [N, L, E]" "shape query = [N, Q, E]"
    and m: "mask_fits [N, H, Q, L] msk"
    and v: "n < N" "h < H" "i < Q" "j < L"
  shows "\<exists>v k q energy attention.
      SelfAttention_heads sa values keys query = Inr (N, Q, v, k, q)
    \<and> SelfAttention_energy q k msk = Inr energy
    \<and> shape energy = [N, H, Q, L]
    \<and> SelfAttention_attention sa values keys query msk = Inr attention
    \<and> shape attention = [N, H, Q, L]
    \<and> entry attention [n, h, i, j]
        = exp (entry energy [n, h, i, j] / sqrt (real E))
          / (\<Sum>c<L. exp (entry energy [n, h, i, c] / sqrt (real E)))
    \<and> sa_embed_size sa = int E \<and> sa_head_dim sa = int (E div H)
    \<and> (1 < H \<longrightarrow> sqrt (real (E div H)) < sqrt (real E))"
proof -
  from wf have c: "sa_embed_size sa = int E" "sa_head_dim sa = int (E div H)" and H: "0 < H"
    by (simp_all add: wf_SelfAttention_def)
  have "E div H < E" if "1 < H" using that E by simp
  then have "1 < H \<longrightarrow> sqrt (real (E div H)) < sqrt (real E)" by simp
  with SelfAttention_attention_entry[OF wf sh m v] c show ?thesis by blast
qed

text \<open>The theorem on the mixer with two heads: the divisor is \<open>sqrt 2\<close>, the head size 1.\<close>

theorem SelfAttention_softmax_scaling_witness:
  "wf_SelfAttention 2 2 duo_sa \<and> (0::nat) < 2
   \<and> shape (Tensor [1, 3, 2] [1, 2, 3, 4, 5, 6 :: real]) = [1, 3, 2]
   \<and> shape (Tensor [1, 2, 2] [1, 0, 0, 1 :: real]) = [1, 2, 2]
   \<and> mask_fits [1, 2, 2, 3] None
   \<and> (\<exists>v k q energy attention.
        SelfAttention_heads duo_sa (Tensor [1, 3, 2] [1, 2, 3, 4, 5, 6])
          (Tensor [1, 3, 2] [1, 2, 3, 4, 5, 6]) (Tensor [1, 2, 2] [1, 0, 0, 1])
          = Inr (1, 2, v, k, q)
      \<and> SelfAttention_energy q k None = Inr energy
      \<and> SelfAttention_attention duo_sa (Tensor [1, 3, 2] [1, 2, 3, 4, 5, 6])
          (Tensor [1, 3, 2] [1, 2, 3, 4, 5, 6]) (Tensor [1, 2, 2] [1, 0, 0, 1]) None
          = Inr attention
      \<and> shape attention = [1, 2, 2, 3]
      \<and> entry attention [0, 1, 1, 2]
          = exp (entry energy [0, 1, 1, 2] / sqrt 2)
            / (\<Sum>c<3. exp (entry energy [0, 1, 1, c] / sqrt 2))
      \<and> sa_head_dim duo_sa = 1)"
proof -
  have m: "mask_fits [1, 2, 2, 3] None" by (simp add: mask_fits_def)
  from SelfAttention_softmax_scaling[OF wf_duo_sa _ _ _ _ m, of
      "Tensor [1, 3, 2] [1, 2, 3, 4, 5, 6]" "Tensor [1, 3, 2] [1, 2, 3, 4, 5, 6]"
      "Tensor [1, 2, 2] [1, 0, 0, 1]" 0 1 1 2]
  obtain v k q energy attention where
    "SelfAttention_heads duo_sa (Tensor [1, 3, 2] [1, 2, 3, 4, 5, 6])
          (Tensor [1, 3, 2] [1, 2, 3, 4, 5, 6]) (Tensor [1, 2, 2] [1, 0, 0, 1])
          = Inr (1, 2, v, k, q)"
    "SelfAttention_energy q k None = Inr energy"
    "SelfAttention_attention duo_sa (Tensor [1, 3, 2] [1, 2, 3, 4, 5, 6])
          (Tensor [1, 3, 2] [1, 2, 3, 4, 5, 6]) (Tensor [1, 2, 2] [1, 0, 0, 1]) None
          = Inr attention"
    "shape attention = [1, 2, 2, 3]"
    "entry attention [0, 1, 1, 2]
          = exp (entry energy [0, 1, 1, 2] / sqrt 2)
            / (\<Sum>c<3. exp (entry energy [0, 1, 1, c] / sqrt 2))"
    "sa_head_dim duo_sa = 1"
    by auto
  then show ?thesis using wf_duo_sa m by auto
qed

text \<open>
  C3. For a mixer whose embedding size \<open>E\<close> is divisible by its \<open>H\<close> heads, and inputs
  \<^verbatim>\<open>values\<close>, \<^verbatim>\<open>keys\<close> of shape \<open>[N, L, E]\<close> and \<^verbatim>\<open>query\<close> of shape \<open>[N, Q, E]\<close>,
  with no mask or one that broadcasts to \<open>[N, H, Q, L]\<close>, \<^verbatim>\<open>forward\<close> returns a tensor
  of shape \<open>[N, Q, E]\<close>, whether or not \<open>Q\<close> equals \<open>L\<close>.
\<close>

theorem SelfAttention_forward_shape:
  assumes "wf_SelfAttention E H sa"
    and "shape values = [N, L, E]" "shape keys = [N, L, E]" "shape query = [N, Q, E]"
    and "mask_fits [N, H, Q, L] msk"
  shows "\<exists>out. SelfAttention_forward sa values keys query msk = Inr out \<and> shape out = [N, Q, E]"
  using assms by (rule SelfAttention_forward_ok)

text \<open>The theorem with three keys and two queries, the last key masked.\<close>

theorem SelfAttention_forward_shape_witness:
  "wf_SelfAttention 2 2 duo_sa
   \<and> shape (Tensor [1, 3, 2] [1, 2, 3, 4, 5, 6 :: real]) = [1, 3, 2]
   \<and> shape (Tensor [1, 2, 2] [1, 0, 0, 1 :: real]) = [1, 2, 2]
   \<and> mask_fits [1, 2, 2, 3] (Some (BoolMask (Tensor [1, 1, 1, 3] [True, True, False])))
   \<and> (\<exists>out. SelfAttention_forward duo_sa (Tensor [1, 3, 2] [1, 2, 3, 4, 5, 6])
               (Tensor [1, 3, 2] [1, 2, 3, 4, 5, 6]) (Tensor [1, 2, 2] [1, 0, 0, 1])
               (Some (BoolMask (Tensor [1, 1, 1, 3] [True, True, False]))) = Inr out
             \<and> shape out = [1, 2, 2])"
proof -
  have m: "mask_fits [1, 2, 2, 3] (Some (BoolMask (Tensor [1, 1, 1, 3] [True, True, False])))"
    by (simp add: mask_fits_def mask_shape_def broadcast_shapes_def)
  from SelfAttention_forward_shape[OF wf_duo_sa _ _ _ m,
      of "Tensor [1, 3, 2] [1, 2, 3, 4, 5, 6]" "Tensor [1, 3, 2] [1, 2, 3, 4, 5, 6]"
         "Tensor [1, 2, 2] [1, 0, 0, 1]"]
  show ?thesis using wf_duo_sa m by simp
qed

text \<open>
  C4. With \<^verbatim>\<open>heads\<close> not 0 and \<^verbatim>\<open>embed_size % heads\<close> not 0, constructing
  \<^verbatim>\<open>SelfAttention\<close> raises the AssertionError before any parameter is allocated; so
  does constructing a \<^verbatim>\<open>Transformer\<close> with at least one layer and sizes that are not
  negative, once the two embedding tables of the encoder are allocated. With
  \<^verbatim>\<open>heads > 0\<close>, \<^verbatim>\<open>embed_size \<ge> 0\<close> and \<^verbatim>\<open>embed_size % heads == 0\<close> the construction of
  the mixer succeeds and gives a well-shaped mixer.
\<close>

theorem SelfAttention_init_divisibility:
  assumes "heads \<noteq> 0"
  shows "(embed_size mod heads \<noteq> 0 \<longrightarrow>
            SelfAttention_init gen embed_size heads g
              = (Inl (AssertionError ''Embedding size needs to be divisible by heads''), g)
          \<and> (0 < num_layers \<and> 0 \<le> src_vocab_size \<and> 0 \<le> embed_size \<and> 0 \<le> max_length \<longrightarrow>
               Transformer_init gen src_vocab_size trg_vocab_size src_pad_idx trg_pad_idx
                 embed_size num_layers forward_expansion heads dropout max_length g
               = (Inl (AssertionError ''Embedding size needs to be divisible by heads''),
                  g + nat src_vocab_size * nat embed_size + nat max_length * nat embed_size)))
       \<and> (embed_size mod heads = 0 \<and> 0 < heads \<and> 0 \<le> embed_size \<longrightarrow>
            (\<exists>sa. SelfAttention_init gen embed_size heads g
                    = (Inr sa, g + 4 * (nat embed_size * nat embed_size + nat embed_size))
                  \<and> wf_SelfAttention (nat embed_size) (nat heads) sa))"
proof (intro conjI impI)
  assume "embed_size mod heads \<noteq> 0"
  with assms show "SelfAttention_init gen embed_size heads g
      = (Inl (AssertionError ''Embedding size needs to be divisible by heads''), g)"
    by (rule SelfAttention_init_not_divisible)
next
  assume "embed_size mod heads \<noteq> 0"
    and "0 < num_layers \<and> 0 \<le> src_vocab_size \<and> 0 \<le> embed_size \<and> 0 \<le> max_length"
  with assms show "Transformer_init gen src_vocab_size trg_vocab_size src_pad_idx trg_pad_idx
      embed_size num_layers forward_expansion heads dropout max_length g
    = (Inl (AssertionError ''Embedding size needs to be divisible by heads''),
       g + nat src_vocab_size * nat embed_size + nat max_length * nat embed_size)"
    by (intro Transformer_init_not_divisible) simp_all
next
  assume "embed_size mod heads = 0 \<and> 0 < heads \<and> 0 \<le> embed_size"
  then show "\<exists>sa. SelfAttention_init gen embed_size heads g
                    = (Inr sa, g + 4 * (nat embed_size * nat embed_size + nat embed_size))
                  \<and> wf_SelfAttention (nat embed_size) (nat heads) sa"
    by (intro SelfAttention_init_ok) simp_all
qed

text \<open>
  The theorem at \<^verbatim>\<open>embed_size=10, heads=3\<close> with the sizes of the notebook's test, and at
  the defaults \<^verbatim>\<open>embed_size=512, heads=8\<close>.
\<close>

theorem SelfAttention_init_divisibility_witness:
  "SelfAttention_init (\<lambda>i. 0) 10 3 0
     = (Inl (AssertionError ''Embedding size needs to be divisible by heads''), 0)
   \<and> Transformer_init (\<lambda>i. 0) 10 10 0 0 10 6 4 3 0 100 0
     = (Inl (AssertionError ''Embedding size needs to be divisible by heads''), 1100)
   \<and> (\<exists>sa. SelfAttention_init (\<lambda>i. 0) 512 8 0 = (Inr sa, 1050624) \<and> wf_SelfAttention 512 8 sa)"
  using SelfAttention_init_divisibility[of 3 10 "\<lambda>i. 0" 0 6 10 100 10 0 0 4 0]
    SelfAttention_init_divisibility[of 8 512 "\<lambda>i. 0" 0 6 10 100 10 0 0 4 0]
  by simp

text \<open>
  A \<^verbatim>\<open>Transformer\<close> with \<^verbatim>\<open>num_layers=0\<close> constructs no mixer, so its construction
  accepts \<^verbatim>\<open>embed_size=10, heads=3\<close>.
\<close>

theorem Transformer_init_no_layers_counterexample:
  "(10 :: int) mod 3 \<noteq> 0
   \<and> (\<exists>tr g'. Transformer_init (\<lambda>i. 0) 10 10 0 0 10 0 4 3 0 100 0 = (Inr tr, g'))"
  by (simp add: Transformer_init_def Encoder_init_def Decoder_init_def nn_Embedding_def
      nn_Linear_def nn_Dropout_def Let_def)

text \<open>
  C5. For a target of shape \<open>[N, T]\<close>, \<^verbatim>\<open>make_trg_mask\<close> returns the float mask
  of shape \<open>[N, 1, T, T]\<close> whose entry at \<open>[n, 0, i, j]\<close> is 1 for \<open>j \<le> i\<close> and 0 for
  \<open>j > i\<close>, for every head after broadcasting. In self-attention under this mask the
  probability that query \<open>i\<close> gives a later key \<open>j > i\<close> is at most
  \<open>exp ((-1e20 - e0[n, h, i, i]) / sqrt embed_size)\<close>, where \<open>e0[n, h, i, i]\<close> is the
  energy of the unmasked key \<open>i\<close>: it is negligible as long as that energy stays far
  above the sentinel.
\<close>

theorem make_trg_mask_causal:
  assumes wf: "wf_SelfAttention E H sa" and E: "0 < E"
    and trg: "shape trg = [N, T]" and x: "shape x = [N, T, E]"
    and v: "n < N" "h < H" "i < T" "j < T"
  shows "\<exists>m v k q e0 attention.
      make_trg_mask tr trg = Inr (FloatMask m) \<and> shape m = [N, 1, T, T]
    \<and> entry m [n, 0, i, j] = (if j \<le> i then 1 else 0)
    \<and> mask_at (FloatMask m) [n, h, i, j] = (if j \<le> i then 1 else 0)
    \<and> SelfAttention_heads sa x x x = Inr (N, T, v, k, q)
    \<and> einsum_nqhd_nkhd_nhqk q k = Inr e0
    \<and> SelfAttention_attention sa x x x (Some (FloatMask m)) = Inr attention
    \<and> (i < j \<longrightarrow> entry attention [n, h, i, j]
                    \<le> exp ((- (10 ^ 20) - entry e0 [n, h, i, i]) / sqrt (real E)))"
proof -
  from make_trg_mask_entry[OF trg v(1,3,4), of tr] obtain m
    where m: "make_trg_mask tr trg = Inr (FloatMask m)" "shape m = [N, 1, T, T]"
      "entry m [n, 0, i, j] = (if j \<le> i then 1 else 0)" by blast
  from make_trg_mask_entry[OF trg v(1,3,3), of tr] m(1)
  have mii: "entry m [n, 0, i, i] = 1" by auto
  have ma: "mask_at (FloatMask m) [n, h, i, c] = entry m [n, 0, i, c]" if "c < T" for c
    using that v by (simp add: mask_at_def m(2) bidx_trg)
  have b: "broadcast_shapes [N, H, T, T] (mask_shape (FloatMask m)) = Inr [N, H, T, T]"
    by (simp add: mask_shape_def m(2) broadcast_shapes_def)
  show ?thesis
  proof (cases "i < j")
    case True
    then have mj: "mask_at (FloatMask m) [n, h, i, j] = 0" using ma[OF v(4)] m(3) by simp
    have mu: "mask_at (FloatMask m) [n, h, i, i] \<noteq> 0" using ma[OF v(3)] mii by simp
    from SelfAttention_attention_masked[OF wf E x x x b v(1,2,3,4) v(3) mj] mu m ma[OF v(4)]
    show ?thesis by auto
  next
    case False
    have mf: "mask_fits [N, H, T, T] (Some (FloatMask m))" using b by (simp add: mask_fits_def)
    from SelfAttention_attention_entry[OF wf x x x mf v] obtain vv k q energy attention
      where hd: "SelfAttention_heads sa x x x = Inr (N, T, vv, k, q)"
        and s: "shape k = [N, T, H, E div H]" "shape q = [N, T, H, E div H]"
        and en: "SelfAttention_energy q k (Some (FloatMask m)) = Inr energy"
        and a: "SelfAttention_attention sa x x x (Some (FloatMask m)) = Inr attention"
      by blast
    from einsum_nqhd_nkhd_nhqk_ok[OF s(2) s(1)] obtain e0
      where "einsum_nqhd_nkhd_nhqk q k = Inr e0" by blast
    with hd a m ma[OF v(4)] False show ?thesis by auto
  qed
qed

text \<open>The theorem on the small mixer with two positions: query 0, key 1.\<close>

theorem make_trg_mask_causal_witness:
  "wf_SelfAttention 1 1 tiny_sa \<and> (0::nat) < 1
   \<and> shape (Tensor [1, 2] [1, 1 :: int]) = [1, 2]
   \<and> shape (Tensor [1, 2, 1] [1, 2 :: real]) = [1, 2, 1]
   \<and> (\<exists>m v k q e0 attention.
        make_trg_mask tiny_transformer (Tensor [1, 2] [1, 1]) = Inr (FloatMask m)
      \<and> shape m = [1, 1, 2, 2]
      \<and> entry m [0, 0, 0, 1] = 0
      \<and> mask_at (FloatMask m) [0, 0, 0, 1] = 0
      \<and> SelfAttention_heads tiny_sa (Tensor [1, 2, 1] [1, 2]) (Tensor [1, 2, 1] [1, 2])
          (Tensor [1, 2, 1] [1, 2]) = Inr (1, 2, v, k, q)
      \<and> einsum_nqhd_nkhd_nhqk q k = Inr e0
      \<and> SelfAttention_attention tiny_sa (Tensor [1, 2, 1] [1, 2]) (Tensor [1, 2, 1] [1, 2])
          (Tensor [1, 2, 1] [1, 2]) (Some (FloatMask m)) = Inr attention
      \<and> entry attention [0, 0, 0, 1] \<le> exp ((- (10 ^ 20) - entry e0 [0, 0, 0, 0]) / sqrt 1))"
  using make_trg_mask_causal[where sa = tiny_sa and E = 1 and H = 1 and N = 1 and T = 2
      and n = 0 and h = 0 and i = 0 and j = 1 and tr = tiny_transformer
      and trg = "Tensor [1, 2] [1, 1]" and x = "Tensor [1, 2, 1] [1, 2]"]
    wf_tiny_sa
  by simp

text \<open>
  The sentinel is finite, so an unmasked energy below it lets a later key through: with
  the hidden state \<open>[2e10, 0]\<close> the energy of query 0 and key 0 is \<open>-4e20\<close>, the energy
  of the masked key 1 is replaced by \<open>-1e20\<close>, and the masked key gets more than half of
  the probability.
\<close>

theorem make_trg_mask_sentinel_counterexample:
  "make_trg_mask tiny_transformer (Tensor [1, 2] [1, 1])
     = Inr (FloatMask (Tensor [1, 1, 2, 2] [1, 0, 1, 1]))
   \<and> (\<exists>attention.
        SelfAttention_attention tiny_sa (Tensor [1, 2, 1] [2 * 10 ^ 10, 0])
          (Tensor [1, 2, 1] [2 * 10 ^ 10, 0]) (Tensor [1, 2, 1] [2 * 10 ^ 10, 0])
          (Some (FloatMask (Tensor [1, 1, 2, 2] [1, 0, 1, 1]))) = Inr attention
      \<and> 1 / 2 \<le> entry attention [0, 0, 0, 1])"
proof -
  let ?a = "exp (- 400000000000000000000 :: real)" and ?b = "exp (- 100000000000000000000 :: real)"
  have m: "make_trg_mask tiny_transformer (Tensor [1, 2] [1, 1])
           = Inr (FloatMask (Tensor [1, 1, 2, 2] [1, 0, 1, 1]))"
    by (simp add: make_trg_mask_def shape2_def tril_def ones_def expand_def tabulate_def
        entry_def bidx_def numeral_2_eq_2)
  have a: "SelfAttention_attention tiny_sa (Tensor [1, 2, 1] [2 * 10 ^ 10, 0])
          (Tensor [1, 2, 1] [2 * 10 ^ 10, 0]) (Tensor [1, 2, 1] [2 * 10 ^ 10, 0])
          (Some (FloatMask (Tensor [1, 1, 2, 2] [1, 0, 1, 1])))
        = Inr (Tensor [1, 1, 2, 2] [?a / (?a + ?b), ?b / (?a + ?b), 1 / 2, 1 / 2])"
    by (simp add: SelfAttention_attention_def SelfAttention_heads_def tiny_sa_def lin11_def
        Linear_forward_def reshape_def SelfAttention_energy_def einsum_nqhd_nkhd_nhqk_def
        masked_fill_def binop_def broadcast_shapes_def mask_eq_zero_def SelfAttention_softmax_def
        softmax_def div_scalar_def tabulate_def entry_def bidx_def bi_def numeral_2_eq_2)
  have e: "entry (Tensor [1, 1, 2, 2] [?a / (?a + ?b), ?b / (?a + ?b), 1 / 2, 1 / 2]) [0, 0, 0, 1]
           = ?b / (?a + ?b)"
    by (simp add: entry_def)
  have r: "1 / 2 \<le> b / (a + b)" if "0 < a" "a \<le> b" for a b :: real
    using that by (simp add: field_simps)
  have "1 / 2 \<le> ?b / (?a + ?b)"
    by (rule r) simp_all
  with m a e show ?thesis by simp
qed

text \<open>
  C6. On well-shaped inputs \<^verbatim>\<open>TransformerBlock.forward\<close> succeeds and computes, in this
  order: the mixer on \<open>(value, key, query, mask)\<close>; the sum of its output and the query;
  the first normalization; dropout; the first linear layer, to \<open>F * E\<close> features; ReLU;
  the second linear layer, back to \<open>E\<close> features; the sum of its output and its own
  input; the second normalization; dropout. The result has the shape of the query.
\<close>

theorem TransformerBlock_forward_order:
  assumes "wf_TransformerBlock E H F tb"
    and "shape value = [N, L, E]" "shape key = [N, L, E]" "shape query = [N, Q, E]"
    and "mask_fits [N, H, Q, L] msk"
  shows "\<exists>attention s1 n1 x g1 h1 forward s2 n2 out g2.
      SelfAttention_forward (tb_attention tb) value key query msk = Inr attention
    \<and> add attention query = Inr s1
    \<and> LayerNorm_forward (tb_norm1 tb) s1 = Inr n1
    \<and> Dropout_forward (tb_dropout tb) rnd n1 g = Inr (x, g1)
    \<and> Linear_forward (fst (tb_feed_forward tb)) x = Inr h1 \<and> shape h1 = [N, Q, F * E]
    \<and> Linear_forward (snd (tb_feed_forward tb)) (ReLU h1) = Inr forward
    \<and> add forward x = Inr s2
    \<and> LayerNorm_forward (tb_norm2 tb) s2 = Inr n2
    \<and> Dropout_forward (tb_dropout tb) rnd n2 g1 = Inr (out, g2)
    \<and> TransformerBlock_forward tb rnd value key query msk g = Inr (out, g2)
    \<and> shape out = shape query"
  using assms by (rule TransformerBlock_forward_steps)

text \<open>The theorem on the small block, with two keys and one query.\<close>

theorem TransformerBlock_forward_order_witness:
  "wf_TransformerBlock 1 1 1 tiny_block
   \<and> shape (Tensor [1, 2, 1] [1, 2 :: real]) = [1, 2, 1]
   \<and> shape (Tensor [1, 1, 1] [3 :: real]) = [1, 1, 1]
   \<and> mask_fits [1, 1, 1, 2] None
   \<and> (\<exists>attention s1 n1 x g1 h1 forward s2 n2 out g2.
        SelfAttention_forward (tb_attention tiny_block) (Tensor [1, 2, 1] [1, 2])
          (Tensor [1, 2, 1] [1, 2]) (Tensor [1, 1, 1] [3]) None = Inr attention
      \<and> add attention (Tensor [1, 1, 1] [3]) = Inr s1
      \<and> LayerNorm_forward (tb_norm1 tiny_block) s1 = Inr n1
      \<and> Dropout_forward (tb_dropout tiny_block) (\<lambda>i. True) n1 0 = Inr (x, g1)
      \<and> Linear_forward (fst (tb_feed_forward tiny_block)) x = Inr h1 \<and> shape h1 = [1, 1, 1 * 1]
      \<and> Linear_forward (snd (tb_feed_forward tiny_block)) (ReLU h1) = Inr forward
      \<and> add forward x = Inr s2
      \<and> LayerNorm_forward (tb_norm2 tiny_block) s2 = Inr n2
      \<and> Dropout_forward (tb_dropout tiny_block) (\<lambda>i. True) n2 g1 = Inr (out, g2)
      \<and> TransformerBlock_forward tiny_block (\<lambda>i. True) (Tensor [1, 2, 1] [1, 2])
          (Tensor [1, 2, 1] [1, 2]) (Tensor [1, 1, 1] [3]) None 0 = Inr (out, g2)
      \<and> shape out = shape (Tensor [1, 1, 1] [3 :: real]))"
proof -
  have m: "mask_fits [1, 1, 1, 2] None" by (simp add: mask_fits_def)
  from TransformerBlock_forward_order[of 1 1 1 tiny_block "Tensor [1, 2, 1] [1, 2]" 1 2
      "Tensor [1, 2, 1] [1, 2]" "Tensor [1, 1, 1] [3]" 1 None "\<lambda>i. True" 0]
  show ?thesis using wf_tiny_block m by simp
qed

text \<open>
  C7. For target tokens of shape \<open>[N, T]\<close> within the vocabulary and the maximal length,
  an encoder output of shape \<open>[N, S, E]\<close> and masks that fit, \<^verbatim>\<open>Decoder.forward\<close>
  succeeds; its result is \<^verbatim>\<open>fc_out\<close> applied once to the hidden state \<open>h\<close> of shape
  \<open>[N, T, E]\<close> that the last layer returns, with nothing applied afterwards: the logit
  at \<open>[n, t, c]\<close> is the sum of \<open>h[n, t, k] * W[c, k]\<close> over \<open>k < E\<close> plus \<open>b[c]\<close>.
  The logits have shape \<open>[N, T, V]\<close>, whatever \<open>E\<close> is.
\<close>

theorem Decoder_forward_logits_shape:
  assumes wf: "wf_Decoder E H F V M dec"
    and x: "shape x = [N, T]" "wf_tokens V x" "T \<le> M"
    and enc: "shape enc_out = [N, S, E]"
    and m: "mask_fits [N, H, T, S] src_mask" "mask_fits [N, H, T, T] trg_mask"
    and v: "n < N" "t < T" "c < V"
  shows "\<exists>h g' out.
      Decoder_hidden dec rnd x enc_out src_mask trg_mask g = Inr (h, g')
    \<and> shape h = [N, T, E]
    \<and> Linear_forward (dec_fc_out dec) h = Inr out
    \<and> Decoder_forward dec rnd x enc_out src_mask trg_mask g = Inr (out, g')
    \<and> shape out = [N, T, V]
    \<and> entry out [n, t, c]
        = (\<Sum>k<E. entry h [n, t, k] * entry (lin_weight (dec_fc_out dec)) [c, k])
          + entry (lin_bias (dec_fc_out dec)) [c]"
proof -
  from Decoder_hidden_ok[OF wf x enc m, of rnd g] obtain h g'
    where h: "Decoder_hidden dec rnd x enc_out src_mask trg_mask g = Inr (h, g')"
      "shape h = [N, T, E]" by blast
  from wf have "wf_Linear E V (dec_fc_out dec)" by (simp add: wf_Decoder_def)
  from Linear_forward_entry[OF this h(2) v] h show ?thesis
    by (auto simp: Decoder_forward_def)
qed

text \<open>The theorem on the small decoder, with two target tokens and the causal mask.\<close>

theorem Decoder_forward_logits_shape_witness:
  "wf_Decoder 1 1 1 2 2 tiny_decoder
   \<and> shape (Tensor [1, 2] [1, 0 :: int]) = [1, 2]
   \<and> wf_tokens 2 (Tensor [1, 2] [1, 0])
   \<and> (2 :: nat) \<le> 2
   \<and> shape (Tensor [1, 1, 1] [1 :: real]) = [1, 1, 1]
   \<and> mask_fits [1, 1, 2, 1] (Some (BoolMask (Tensor [1, 1, 1, 1] [True])))
   \<and> mask_fits [1, 1, 2, 2] (Some (FloatMask (Tensor [1, 1, 2, 2] [1, 0, 1, 1])))
   \<and> (\<exists>h g' out.
        Decoder_hidden tiny_decoder (\<lambda>i. True) (Tensor [1, 2] [1, 0]) (Tensor [1, 1, 1] [1])
          (Some (BoolMask (Tensor [1, 1, 1, 1] [True])))
          (Some (FloatMask (Tensor [1, 1, 2, 2] [1, 0, 1, 1]))) 0 = Inr (h, g')
      \<and> shape h = [1, 2, 1]
      \<and> Linear_forward (dec_fc_out tiny_decoder) h = Inr out
      \<and> Decoder_forward tiny_decoder (\<lambda>i. True) (Tensor [1, 2] [1, 0]) (Tensor [1, 1, 1] [1])
          (Some (BoolMask (Tensor [1, 1, 1, 1] [True])))
          (Some (FloatMask (Tensor [1, 1, 2, 2] [1, 0, 1, 1]))) 0 = Inr (out, g')
      \<and> shape out = [1, 2, 2]
      \<and> entry out [0, 1, 1]
          = (\<Sum>k<1. entry h [0, 1, k] * entry (lin_weight (dec_fc_out tiny_decoder)) [1, k])
            + entry (lin_bias (dec_fc_out tiny_decoder)) [1])"
proof -
  have t: "wf_tokens 2 (Tensor [1, 2] [1, 0])" by (simp add: wf_tokens_def)
  have s: "mask_fits [1, 1, 2, 1] (Some (BoolMask (Tensor [1, 1, 1, 1] [True])))"
    by (simp add: mask_fits_def mask_shape_def broadcast_shapes_def)
  have m: "mask_fits [1, 1, 2, 2] (Some (FloatMask (Tensor [1, 1, 2, 2] [1, 0, 1, 1])))"
    by (simp add: mask_fits_def mask_shape_def broadcast_shapes_def)
  from Decoder_forward_logits_shape[OF wf_tiny_decoder _ t _ _ s m,
      where enc_out = "Tensor [1, 1, 1] [1]" and n = 0 and t = 1 and c = 1
        and rnd = "\<lambda>i. True" and g = 0]
  show ?thesis using wf_tiny_decoder t s m by simp
qed

text \<open>
  C8. In a model whose dropout probability is 0 everywhere, \<^verbatim>\<open>Transformer.forward\<close>
  does not depend on the random generator: for the same weights, source and target,
  any two random streams and generator positions give the same output (or the same
  error).
\<close>

theorem Transformer_forward_deterministic:
  assumes "no_dropout tr"
  shows "map_sum id fst (Transformer_forward tr rnd src trg g)
         = map_sum id fst (Transformer_forward tr rnd' src trg g')"
  using Transformer_forward_det[OF assms, of rnd src trg g rnd' g']
  by (simp add: map_sum_rewind)

text \<open>The theorem on the small model, with a stream that keeps all and one that drops all.\<close>

theorem Transformer_forward_deterministic_witness:
  "no_dropout tiny_transformer
   \<and> map_sum id fst (Transformer_forward tiny_transformer (\<lambda>i. True)
         (Tensor [1, 2] [1, 0]) (Tensor [1, 2] [1, 1]) 0)
     = map_sum id fst (Transformer_forward tiny_transformer (\<lambda>i. False)
         (Tensor [1, 2] [1, 0]) (Tensor [1, 2] [1, 1]) 7)"
  using Transformer_forward_deterministic[OF no_dropout_tiny,
      of "\<lambda>i. True" "Tensor [1, 2] [1, 0]" "Tensor [1, 2] [1, 1]" 0 "\<lambda>i. False" 7]
    no_dropout_tiny
  by simp

text \<open>
  C9. Constructing \<^verbatim>\<open>SelfAttention\<close> with \<^verbatim>\<open>heads = 0\<close> raises ZeroDivisionError in
  \<^verbatim>\<open>embed_size // heads\<close>, whatever the embedding size: the assertion is not reached,
  no parameter is allocated, and the error reported is never the AssertionError.
\<close>

theorem SelfAttention_init_heads_zero:
  "SelfAttention_init gen embed_size 0 g = (Inl ZeroDivisionError, g)
   \<and> fst (SelfAttention_init gen embed_size 0 g) \<noteq> Inl (AssertionError msg)"
  by (simp add: SelfAttention_init_def)

text \<open>
  C10. \<^verbatim>\<open>make_trg_mask\<close> reads the shape of the target tensor only: two targets of the
  same shape get the same mask, whatever their token ids and whatever the padding ids
  of the model. A padding token is therefore masked exactly as any other token is.
\<close>

theorem make_trg_mask_shape_only:
  "shape trg = shape trg' \<Longrightarrow> make_trg_mask tr trg = make_trg_mask tr' trg'"
  by (simp add: make_trg_mask_def shape2_def)

theorem make_trg_mask_shape_only_witness:
  "shape (Tensor [1, 3] [1, 1, 0 :: int]) = shape (Tensor [1, 3] [1, 1, 1 :: int])
   \<and> make_trg_mask tiny_transformer (Tensor [1, 3] [1, 1, 0])
       = make_trg_mask tiny_transformer (Tensor [1, 3] [1, 1, 1])"
  using make_trg_mask_shape_only
    [of "Tensor [1, 3] [1, 1, 0]" "Tensor [1, 3] [1, 1, 1]" tiny_transformer tiny_transformer]
  by simp

end
